theory Spec2Isabelle
  imports Main "HOL-Library.Char_ord" "HOL-Library.List_Lexorder" "HOL-Library.Product_Lexorder"
    "HOL-Library.Multiset"
begin

section \<open>Python values and exceptions\<close>

text \<open>
  The exceptions the modelled code can raise.  A function of the source that can raise
  returns \<open>error + 'a\<close>, with \<open>Inl\<close> for the exception.
\<close>

datatype error =
    IndexError
  | KeyError
  | ValueError
  | AssertionError
  | AttributeError
  | ValidationError string

text \<open>
  A component of a version tuple is a Python \<open>int\<close> or a Python \<open>str\<close>.  The integers
  that occur are read from runs of decimal digits, so they are never negative.
\<close>

datatype tok = TInt nat | TStr string

fun is_int :: "tok \<Rightarrow> bool" where
  "is_int (TInt n) = True"
| "is_int (TStr s) = False"

subsection \<open>Decimal numerals: \<open>str\<close> and \<open>int\<close>\<close>

definition is_digit :: "char \<Rightarrow> bool" where
  "is_digit c = (48 \<le> (of_char c :: nat) \<and> (of_char c :: nat) \<le> 57)"

definition digit_val :: "char \<Rightarrow> nat" where
  "digit_val c = of_char c - 48"

definition digit_char :: "nat \<Rightarrow> char" where
  "digit_char d =
     (if d = 0 then CHR ''0'' else if d = 1 then CHR ''1'' else if d = 2 then CHR ''2''
      else if d = 3 then CHR ''3'' else if d = 4 then CHR ''4'' else if d = 5 then CHR ''5''
      else if d = 6 then CHR ''6'' else if d = 7 then CHR ''7'' else if d = 8 then CHR ''8''
      else CHR ''9'')"

text \<open>Python's \<open>str(n)\<close> for an integer \<open>n \<ge> 0\<close>.\<close>

function str_nat :: "nat \<Rightarrow> string" where
  "str_nat n =
     (if n < 10 then [digit_char n] else str_nat (n div 10) @ [digit_char (n mod 10)])"
  by pat_completeness auto
termination
  by (relation "measure id") auto

declare str_nat.simps [simp del]

text \<open>Python's \<open>int(s)\<close> for a non-empty string \<open>s\<close> of decimal digits.\<close>

definition int_of_digits :: "string \<Rightarrow> nat" where
  "int_of_digits ds = foldl (\<lambda>acc c. 10 * acc + digit_val c) 0 ds"

text \<open>\<open>str(x)\<close> for a component of a version tuple.\<close>

fun str_tok :: "tok \<Rightarrow> string" where
  "str_tok (TInt n) = str_nat n"
| "str_tok (TStr s) = s"

text \<open>\<open>s.zfill(w)\<close>, and the \<open>%02d\<close>, \<open>%04d\<close>, \<open>%06d\<close> conversions built on it.\<close>

definition zfill :: "nat \<Rightarrow> string \<Rightarrow> string" where
  "zfill w s = replicate (w - length s) CHR ''0'' @ s"

definition pad2 :: "nat \<Rightarrow> string" where
  "pad2 n = zfill 2 (str_nat n)"

text \<open>\<open>sep.join(xs)\<close>.\<close>

fun join :: "string \<Rightarrow> string list \<Rightarrow> string" where
  "join sep [] = []"
| "join sep [x] = x"
| "join sep (x # y # ys) = x @ sep @ join sep (y # ys)"

text \<open>\<open>s.replace(c, "")\<close> for a one-character string \<open>c\<close>.\<close>

definition remove_char :: "char \<Rightarrow> string \<Rightarrow> string" where
  "remove_char c s = filter (\<lambda>x. x \<noteq> c) s"

section \<open>Version parser\<close>

text \<open>
  Modelled from the spec: \<open>get_loose_version_tuple\<close> of \<open>releases/utils.py\<close>, which the
  source imports and which is not among the source files.  The specification (section
  4.1) says of it: "tokenize into a loose sequence of numeric and alphabetic runs".  A
  maximal run of decimal digits is one integer component; dots separate components and
  are dropped; a maximal run of characters that are neither digits nor dots is one
  string component.
\<close>

function get_loose_version_tuple :: "string \<Rightarrow> tok list" where
  "get_loose_version_tuple [] = []"
| "get_loose_version_tuple (c # cs) =
     (if is_digit c then
        TInt (int_of_digits (c # takeWhile is_digit cs))
          # get_loose_version_tuple (dropWhile is_digit cs)
      else if c = CHR ''.'' then get_loose_version_tuple cs
      else
        TStr (c # takeWhile (\<lambda>x. \<not> is_digit x \<and> x \<noteq> CHR ''.'') cs)
          # get_loose_version_tuple
              (dropWhile (\<lambda>x. \<not> is_digit x \<and> x \<noteq> CHR ''.'') cs))"
  by pat_completeness auto
termination
  by (relation "measure length") (auto simp: length_dropWhile_le less_Suc_eq_le)

definition status_names :: "string list" where
  "status_names = [''alpha'', ''beta'', ''rc'', ''final'']"

text \<open>The literal dictionary \<open>{"a": "alpha", "b": "beta", "c": "rc"}\<close> of \<open>version_tuple\<close>.\<close>

definition status_abbreviations :: "string \<rightharpoonup> string" where
  "status_abbreviations = [''a'' \<mapsto> ''alpha'', ''b'' \<mapsto> ''beta'', ''c'' \<mapsto> ''rc'']"

text \<open>
  The body of \<open>Release.version_tuple\<close> after the call of \<open>get_loose_version_tuple\<close>: the
  list \<open>version\<close> is updated in place, step by step.  \<open>version[2]\<close> raises \<open>IndexError\<close> on
  a list shorter than three; \<open>version[3]\<close> is in range when it is read, because the list
  has at least four elements by then; the dictionary lookup raises \<open>KeyError\<close> for a key
  it does not have, and an integer is never among its keys nor among the four names.
\<close>

definition normalize_version :: "tok list \<Rightarrow> error + tok list" where
  "normalize_version version0 =
     (let version1 = (if length version0 = 2 then version0 @ [TInt 0] else version0)
      in if length version1 < 3 then Inl IndexError
         else
           let version2 = (if \<not> is_int (version1 ! 2)
                           then take 2 version1 @ [TInt 0] @ drop 2 version1 else version1);
               version3 = (if length version2 = 3 then version2 @ [TStr ''final'']
                           else version2)
           in case version3 ! 3 of
                TInt n \<Rightarrow> Inl KeyError
              | TStr s \<Rightarrow>
                  if s \<in> set status_names
                  then Inr (if length version3 = 4 then version3 @ [TInt 0] else version3)
                  else (case status_abbreviations s of
                          None \<Rightarrow> Inl KeyError
                        | Some name \<Rightarrow>
                            let version4 = version3[3 := TStr name]
                            in Inr (if length version4 = 4 then version4 @ [TInt 0]
                                    else version4)))"

text \<open>
  The value \<open>Release.version_tuple\<close> computes from a version string: separators \<open>-\<close> and
  \<open>_\<close> are removed, the string is split into components, and the components are
  normalised.
\<close>

definition parse_version :: "string \<Rightarrow> error + tok list" where
  "parse_version v =
     normalize_version
       (get_loose_version_tuple (remove_char CHR ''_'' (remove_char CHR ''-'' v)))"

text \<open>
  Modelled from the spec: \<open>get_complete_version\<close> and \<open>get_main_version\<close> are functions of
  \<open>django.utils.version\<close>, outside the source files.  The first checks its argument (five
  components, the fourth one of the four status names) and returns it; the second renders
  the "main" part \<open>X.Y[.Z]\<close>, where the specification (section 4.1) says that micro is
  omitted when it is zero.
\<close>

definition get_complete_version :: "tok list \<Rightarrow> error + tok list" where
  "get_complete_version version =
     (if length version \<noteq> 5 then Inl AssertionError
      else if version ! 3 \<notin> TStr ` set status_names then Inl AssertionError
      else Inr version)"

definition get_main_version :: "tok list \<Rightarrow> error + string" where
  "get_main_version version0 =
     (case get_complete_version version0 of
        Inl e \<Rightarrow> Inl e
      | Inr version \<Rightarrow>
          let parts = (if version ! 2 = TInt 0 then 2 else 3)
          in Inr (join ''.'' (map str_tok (take parts version))))"

text \<open>The literal dictionary \<open>{"alpha": "a", "beta": "b", "rc": "rc"}\<close> of \<open>get_version\<close>.\<close>

definition status_suffix :: "string \<rightharpoonup> string" where
  "status_suffix = [''alpha'' \<mapsto> ''a'', ''beta'' \<mapsto> ''b'', ''rc'' \<mapsto> ''rc'']"

text \<open>\<open>get_version\<close>, called with a version tuple (the default \<open>None\<close> is never passed).\<close>

definition get_version :: "tok list \<Rightarrow> error + string" where
  "get_version version0 =
     (case get_complete_version version0 of
        Inl e \<Rightarrow> Inl e
      | Inr version \<Rightarrow>
          (case get_main_version version of
             Inl e \<Rightarrow> Inl e
           | Inr main \<Rightarrow>
               if version ! 3 \<noteq> TStr ''final''
               then (case version ! 3 of
                       TInt n \<Rightarrow> Inl KeyError
                     | TStr s \<Rightarrow>
                         (case status_suffix s of
                            None \<Rightarrow> Inl KeyError
                          | Some sub \<Rightarrow> Inr (main @ sub @ str_tok (version ! 4))))
               else Inr main))"

section \<open>Release entity\<close>

text \<open>A \<open>datetime.date\<close> is represented by its proleptic ordinal, the number of its day.\<close>

type_synonym date = int

definition RELEASE_STATUS_REVERSE :: "string \<rightharpoonup> string" where
  "RELEASE_STATUS_REVERSE =
     [''alpha'' \<mapsto> ''a'', ''beta'' \<mapsto> ''b'', ''rc'' \<mapsto> ''c'', ''final'' \<mapsto> ''f'']"

text \<open>
  One row of the \<open>Release\<close> table.  \<open>version\<close> is the primary key; \<open>date\<close> and \<open>eol_date\<close>
  are nullable.  The three file fields play no part in the operations modelled here and
  are left out.  The small-integer columns are natural numbers; the upper bound that some
  database backends put on them is not modelled.
\<close>

record release =
  version :: string
  is_active :: bool
  date :: "date option"
  eol_date :: "date option"
  major :: nat
  minor :: nat
  micro :: nat
  status :: string
  iteration :: nat
  is_lts :: bool

text \<open>
  A \<open>Release\<close> instance in memory: the field values, and the entry that the
  \<open>cached_property\<close> \<open>version_tuple\<close> leaves in the instance dictionary once it has been
  computed.
\<close>

record release_obj =
  model_fields :: release
  cached_version_tuple :: "tok list option"

text \<open>\<open>Release(**kwargs)\<close>: a fresh instance, nothing cached.\<close>

definition new_release :: "release \<Rightarrow> release_obj" where
  "new_release r = \<lparr>model_fields = r, cached_version_tuple = None\<rparr>"

text \<open>\<open>self.version = v\<close>: the assignment leaves the cached tuple where it is.\<close>

definition set_version :: "string \<Rightarrow> release_obj \<Rightarrow> release_obj" where
  "set_version v self = self\<lparr>model_fields := (model_fields self)\<lparr>version := v\<rparr>\<rparr>"

text \<open>
  Reading \<open>self.version_tuple\<close>.  \<open>cached_property\<close> returns the stored value when there is
  one; otherwise it runs the function body and stores what the body returns.  A body that
  raises stores nothing.
\<close>

definition version_tuple :: "release_obj \<Rightarrow> (error + tok list) \<times> release_obj" where
  "version_tuple self =
     (case cached_version_tuple self of
        Some t \<Rightarrow> (Inr t, self)
      | None \<Rightarrow>
          (case parse_version (version (model_fields self)) of
             Inl e \<Rightarrow> (Inl e, self)
           | Inr t \<Rightarrow> (Inr t, self\<lparr>cached_version_tuple := Some t\<rparr>)))"

subsection \<open>Ordering, hash and equality\<close>

text \<open>\<open>Release.__lt__\<close>: Python compares the two triples lexicographically.\<close>

definition release_key :: "release \<Rightarrow> nat \<times> nat \<times> nat" where
  "release_key r = (major r, minor r, micro r)"

definition release_lt :: "release \<Rightarrow> release \<Rightarrow> bool" where
  "release_lt self other = (release_key self < release_key other)"

text \<open>
  \<open>Release.__hash__\<close>: the hash of the triple.  Python's hash function on triples of
  integers is the parameter \<open>H\<close>.
\<close>

definition release_hash :: "(nat \<times> nat \<times> nat \<Rightarrow> int) \<Rightarrow> release \<Rightarrow> int" where
  "release_hash H self = H (major self, minor self, micro self)"

text \<open>
  \<open>Release\<close> defines \<open>__lt__\<close> and \<open>__hash__\<close> and no \<open>__eq__\<close>, and \<open>total_ordering\<close> adds
  \<open>__le__\<close>, \<open>__gt__\<close> and \<open>__ge__\<close> only.  \<open>==\<close> on two releases is therefore the method
  inherited from \<open>django.db.models.Model\<close>: two instances of one model are equal when
  their primary keys are equal.  The primary key of \<open>Release\<close> is \<open>version\<close>.
\<close>

definition release_eq :: "release \<Rightarrow> release \<Rightarrow> bool" where
  "release_eq self other = (version self = version other)"

text \<open>The methods \<open>total_ordering\<close> derives from \<open>__lt__\<close> and \<open>__eq__\<close>.\<close>

definition release_le :: "release \<Rightarrow> release \<Rightarrow> bool" where
  "release_le self other = (release_lt self other \<or> release_eq self other)"

definition release_gt :: "release \<Rightarrow> release \<Rightarrow> bool" where
  "release_gt self other = (\<not> release_lt self other \<and> \<not> release_eq self other)"

definition release_ge :: "release \<Rightarrow> release \<Rightarrow> bool" where
  "release_ge self other = (\<not> release_lt self other)"

subsection \<open>Derived properties\<close>

definition feature_version :: "release \<Rightarrow> string" where
  "feature_version self = str_nat (major self) @ ''.'' @ str_nat (minor self)"

definition is_pre_release :: "release \<Rightarrow> bool" where
  "is_pre_release self = (status self \<noteq> ''f'')"

definition is_dot_zero :: "release \<Rightarrow> bool" where
  "is_dot_zero self = (status self = ''f'' \<and> micro self = 0)"

definition is_published :: "date \<Rightarrow> release \<Rightarrow> bool" where
  "is_published today self =
     (is_active self \<and> (case date self of None \<Rightarrow> False | Some d \<Rightarrow> d \<le> today))"

section \<open>Release query engine\<close>

text \<open>
  Sorting in descending order of a key, stable: Python's \<open>sorted(xs, reverse=True)\<close>
  reverses, sorts stably in ascending order, and reverses again.  The same function stands
  for \<open>order_by\<close> with descending columns, where the order of rows that agree on all the
  columns is left to the database; the properties proved below do not depend on it.
\<close>

definition sorted_desc :: "('a \<Rightarrow> 'k::linorder) \<Rightarrow> 'a list \<Rightarrow> 'a list" where
  "sorted_desc k xs = rev (sort_key k (rev xs))"

text \<open>\<open>field__lte=at\<close> on a nullable date column: a null never satisfies it.\<close>

definition date_lte :: "date option \<Rightarrow> date \<Rightarrow> bool" where
  "date_lte d at = (case d of None \<Rightarrow> False | Some x \<Rightarrow> x \<le> at)"

text \<open>\<open>if at is None: at = datetime.date.today()\<close>.\<close>

definition at_or_today :: "date option \<Rightarrow> date \<Rightarrow> date" where
  "at_or_today at today = (case at of None \<Rightarrow> today | Some d \<Rightarrow> d)"

text \<open>
  The manager methods take the optional argument \<open>at\<close>, the reading \<open>today\<close> of the clock,
  and the rows of the table.
\<close>

definition published :: "date option \<Rightarrow> date \<Rightarrow> release list \<Rightarrow> release list" where
  "published at0 today table =
     (let at = at_or_today at0 today
      in sorted_desc (\<lambda>r. (major r, minor r, micro r, status r))
           (filter (\<lambda>r. \<not> date_lte (eol_date r) at)
              (filter (\<lambda>r. 1 \<le> major r \<and> date_lte (date r) at \<and> is_active r) table)))"

definition supported :: "date option \<Rightarrow> date \<Rightarrow> release list \<Rightarrow> release list" where
  "supported at today table = filter (\<lambda>r. status r = ''f'') (published at today table)"

text \<open>
  The loop of \<open>unsupported\<close>: the candidates still to visit, the set
  \<open>excluded_major_minor\<close> and the list \<open>unsupported\<close> built so far.
\<close>

fun unsupported_loop ::
  "release list \<Rightarrow> (nat \<times> nat) set \<Rightarrow> release list \<Rightarrow> release list" where
  "unsupported_loop [] excluded_major_minor acc = acc"
| "unsupported_loop (r # rs) excluded_major_minor acc =
     (if (major r, minor r) \<notin> excluded_major_minor
      then unsupported_loop rs (insert (major r, minor r) excluded_major_minor) (acc @ [r])
      else unsupported_loop rs excluded_major_minor acc)"

definition unsupported_candidates :: "date \<Rightarrow> release list \<Rightarrow> release list" where
  "unsupported_candidates at table =
     sorted_desc (\<lambda>r. (major r, minor r, micro r))
       (filter (\<lambda>r. 1 \<le> major r \<and> date_lte (eol_date r) at \<and> status r = ''f'') table)"

definition unsupported :: "date option \<Rightarrow> date \<Rightarrow> release list \<Rightarrow> release list" where
  "unsupported at0 today table =
     (let at = at_or_today at0 today;
          excluded_major_minor =
            set (map (\<lambda>r. (major r, minor r)) (supported (Some at) today table))
      in unsupported_loop (unsupported_candidates at table) excluded_major_minor [])"

text \<open>\<open>QuerySet.first()\<close>.\<close>

definition first :: "'a list \<Rightarrow> 'a option" where
  "first xs = (case xs of [] \<Rightarrow> None | x # _ \<Rightarrow> Some x)"

definition current :: "date option \<Rightarrow> date \<Rightarrow> release list \<Rightarrow> release option" where
  "current at today table = first (supported at today table)"

definition previous :: "date option \<Rightarrow> date \<Rightarrow> release list \<Rightarrow> release option" where
  "previous at today table = first (drop 1 (supported at today table))"

definition lts :: "date option \<Rightarrow> date \<Rightarrow> release list \<Rightarrow> release list" where
  "lts at today table = filter is_lts (supported at today table)"

definition preview :: "date option \<Rightarrow> date \<Rightarrow> release list \<Rightarrow> release option" where
  "preview at today table =
     first (filter (\<lambda>r. status r \<noteq> ''f'') (published at today table))"

subsection \<open>Saving a release\<close>

text \<open>
  \<open>Model.save\<close> on a row with a primary key: the row with that key is replaced, and the
  row is inserted when the table has none.
\<close>

definition db_save :: "release \<Rightarrow> release list \<Rightarrow> release list" where
  "db_save row table =
     (if version row \<in> set (map version table)
      then map (\<lambda>r. if version r = version row then row else r) table
      else table @ [row])"

text \<open>\<open>QuerySet.filter(...).update(eol_date=d)\<close>.\<close>

definition db_update_eol ::
  "(release \<Rightarrow> bool) \<Rightarrow> date option \<Rightarrow> release list \<Rightarrow> release list" where
  "db_update_eol cond d table = map (\<lambda>r. if cond r then r\<lparr>eol_date := d\<rparr> else r) table"

text \<open>
  \<open>Release.save\<close>.  The tuple assignment raises \<open>ValueError\<close> unless the tuple has exactly
  five components; the dictionary lookup raises \<open>KeyError\<close> for a status that is not one of
  the four names; writing a string into one of the integer columns raises \<open>ValueError\<close>.
  The cache that \<open>cache.delete\<close> clears is not part of the state modelled here.  The result
  is the instance and the table after the call.
\<close>

definition save ::
  "release_obj \<Rightarrow> release list \<Rightarrow> error + (release_obj \<times> release list)" where
  "save self0 table =
     (case version_tuple self0 of
        (Inl e, self1) \<Rightarrow> Inl e
      | (Inr vt, self1) \<Rightarrow>
          if length vt \<noteq> 5 then Inl ValueError
          else (case (case vt ! 3 of TInt n \<Rightarrow> None | TStr s \<Rightarrow> RELEASE_STATUS_REVERSE s) of
                  None \<Rightarrow> Inl KeyError
                | Some code \<Rightarrow>
                    (case (vt ! 0, vt ! 1, vt ! 2, vt ! 4) of
                       (TInt ma, TInt mi, TInt mc, TInt it) \<Rightarrow>
                         let row = (model_fields self1)\<lparr>major := ma, minor := mi, micro := mc,
                                                  status := code, iteration := it\<rparr>;
                             self2 = self1\<lparr>model_fields := row\<rparr>;
                             table1 = db_save row table;
                             table2 =
                               (if status row = ''f'' \<and> 0 < micro row \<and> is_active row
                                then db_update_eol
                                       (\<lambda>r. major r = major row \<and> minor r = minor row \<and>
                                             micro r = micro row - 1 \<and> status r = ''f'')
                                       (date row) table1
                                else table1)
                         in Inr (self2, table2)
                     | _ \<Rightarrow> Inl ValueError)))"

text \<open>
  \<open>Release.objects.create(**kwargs)\<close> on a table that has no row with that version:
  a fresh instance, saved.
\<close>

definition create :: "release \<Rightarrow> release list \<Rightarrow> error + release list" where
  "create r table =
     (case save (new_release r) table of Inl e \<Rightarrow> Inl e | Inr (obj, t) \<Rightarrow> Inr t)"

fun create_all :: "release list \<Rightarrow> release list \<Rightarrow> error + release list" where
  "create_all [] table = Inr table"
| "create_all (r # rs) table =
     (case create r table of Inl e \<Rightarrow> Inl e | Inr t \<Rightarrow> create_all rs t)"

section \<open>Security advisory aggregator\<close>

subsection \<open>Timestamps\<close>

text \<open>
  A \<open>datetime.datetime\<close>: the calendar fields, and the offset from UTC in seconds, \<open>None\<close>
  for a naive value.
\<close>

record datetime =
  year :: nat
  month :: nat
  day :: nat
  hour :: nat
  minute :: nat
  second :: nat
  microsecond :: nat
  utcoffset :: "int option"

definition month_abbr :: "nat \<Rightarrow> string" where
  "month_abbr m =
     (if 1 \<le> m \<and> m \<le> 12
      then [''Jan'', ''Feb'', ''Mar'', ''Apr'', ''May'', ''Jun'',
            ''Jul'', ''Aug'', ''Sep'', ''Oct'', ''Nov'', ''Dec''] ! (m - 1)
      else [])"

definition lower_char :: "char \<Rightarrow> char" where
  "lower_char c =
     (case map_of (zip ''ABCDEFGHIJKLMNOPQRSTUVWXYZ'' ''abcdefghijklmnopqrstuvwxyz'') c of
        None \<Rightarrow> c
      | Some l \<Rightarrow> l)"

text \<open>
  \<open>when.strftime("%m/%d/%Y")\<close>.  The year is written with four digits; for a year below
  1000 the C libraries behind \<open>strftime\<close> differ in the padding, and nothing below depends
  on it.
\<close>

definition strftime_mdY :: "datetime \<Rightarrow> string" where
  "strftime_mdY t = pad2 (month t) @ ''/'' @ pad2 (day t) @ ''/'' @ zfill 4 (str_nat (year t))"

text \<open>\<open>when.strftime("%Y/%b/%d")\<close>, with the month names of the C locale.\<close>

definition strftime_Ybd :: "datetime \<Rightarrow> string" where
  "strftime_Ybd t =
     zfill 4 (str_nat (year t)) @ ''/'' @ month_abbr (month t) @ ''/'' @ pad2 (day t)"

text \<open>
  \<open>when.isoformat()\<close>: date, \<open>T\<close>, time, the microseconds when they are not zero, and the
  offset of an aware value as \<open>+HH:MM\<close>, with the seconds when they are not zero.
\<close>

definition format_offset :: "int option \<Rightarrow> string" where
  "format_offset off =
     (case off of
        None \<Rightarrow> []
      | Some s \<Rightarrow>
          let a = nat \<bar>s\<bar>;
              hh = a div 3600; mm = (a mod 3600) div 60; ss = a mod 60
          in (if s < 0 then ''-'' else ''+'') @ pad2 hh @ '':'' @ pad2 mm
             @ (if ss \<noteq> 0 then '':'' @ pad2 ss else []))"

definition isoformat :: "datetime \<Rightarrow> string" where
  "isoformat t =
     zfill 4 (str_nat (year t)) @ ''-'' @ pad2 (month t) @ ''-'' @ pad2 (day t) @ ''T''
     @ pad2 (hour t) @ '':'' @ pad2 (minute t) @ '':'' @ pad2 (second t)
     @ (if microsecond t \<noteq> 0 then ''.'' @ zfill 6 (str_nat (microsecond t)) else [])
     @ format_offset (utcoffset t)"

subsection \<open>Tables\<close>

text \<open>
  A \<open>SecurityRelease\<close> checklist: its key and the field \<open>when\<close> of \<open>ReleaseChecklist\<close>,
  here \<open>when_dt\<close>.  The releaser and the two bookkeeping timestamps are not read by the
  operations modelled here.
\<close>

record security_release =
  checklist_id :: nat
  when_dt :: datetime

text \<open>
  A \<open>SecurityIssue\<close>; \<open>release_fk\<close> is the nullable foreign key \<open>release\<close> to the
  \<open>SecurityRelease\<close> that will fix the issue.
\<close>

record security_issue =
  issue_id :: nat
  cve_year_number :: string
  cve_type :: string
  other_type :: string
  attack_type :: string
  impact :: string
  severity :: string
  summary :: string
  description :: string
  blogdescription :: string
  reporter :: string
  release_fk :: "nat option"
  commit_hash_main :: string

text \<open>A row of \<open>SecurityIssueReleasesThrough\<close>, the table behind \<open>SecurityIssue.releases\<close>.\<close>

record through_row =
  security_issue_id :: nat
  release_id :: string
  commit_hash :: string

record store =
  release_table :: "release list"
  securityrelease_table :: "security_release list"
  securityissue_table :: "security_issue list"
  through_table :: "through_row list"

text \<open>\<open>checklist.securityissue_set.all()\<close>: the issues whose foreign key is the checklist.\<close>

definition securityissue_set :: "store \<Rightarrow> security_release \<Rightarrow> security_issue list" where
  "securityissue_set st self =
     filter (\<lambda>i. release_fk i = Some (checklist_id self)) (securityissue_table st)"

text \<open>
  \<open>issue.releases.all()\<close>: the join of the through table with the release table, for the
  through rows of the issue.
\<close>

definition issue_releases :: "store \<Rightarrow> security_issue \<Rightarrow> release list" where
  "issue_releases st issue =
     concat (map (\<lambda>t. filter (\<lambda>r. version r = release_id t) (release_table st))
                 (filter (\<lambda>t. security_issue_id t = issue_id issue) (through_table st)))"

text \<open>
  \<open>issue.release\<close>: following the foreign key.  A null key reads as \<open>None\<close>; a key that
  is set has its row, by the foreign-key constraint of the database.
\<close>

definition issue_release :: "store \<Rightarrow> security_issue \<Rightarrow> security_release option" where
  "issue_release st issue =
     (case release_fk issue of
        None \<Rightarrow> None
      | Some k \<Rightarrow> find (\<lambda>c. checklist_id c = k) (securityrelease_table st))"

subsection \<open>Checklist properties\<close>

text \<open>
  A Python \<open>set\<close> of releases, as the list of its elements in the order they were first
  added.  Adding \<open>x\<close> changes nothing when the set holds an element with the hash of \<open>x\<close>
  that is \<open>==\<close> to \<open>x\<close>.  The order in which Python iterates over a set is not specified;
  the properties proved below do not depend on it.
\<close>

definition set_add ::
  "(nat \<times> nat \<times> nat \<Rightarrow> int) \<Rightarrow> release list \<Rightarrow> release \<Rightarrow> release list" where
  "set_add H s x =
     (if \<exists>e \<in> set s. release_hash H e = release_hash H x \<and> release_eq e x
      then s else s @ [x])"

definition release_set :: "(nat \<times> nat \<times> nat \<Rightarrow> int) \<Rightarrow> release list \<Rightarrow> release list" where
  "release_set H xs = foldl (set_add H) [] xs"

definition affected_releases ::
  "(nat \<times> nat \<times> nat \<Rightarrow> int) \<Rightarrow> store \<Rightarrow> security_release \<Rightarrow> release list" where
  "affected_releases H st self =
     sorted_desc release_key
       (release_set H (concat (map (issue_releases st) (securityissue_set st self))))"

definition versions ::
  "(nat \<times> nat \<times> nat \<Rightarrow> int) \<Rightarrow> store \<Rightarrow> security_release \<Rightarrow> string list" where
  "versions H st self =
     map version (filter (\<lambda>r. \<not> is_pre_release r) (affected_releases H st self))"

text \<open>\<open>[...][0]\<close> raises \<open>IndexError\<close> on the empty list.\<close>

definition latest_release ::
  "(nat \<times> nat \<times> nat \<Rightarrow> int) \<Rightarrow> store \<Rightarrow> security_release \<Rightarrow> error + release" where
  "latest_release H st self =
     (case filter (\<lambda>r. \<not> is_pre_release r) (affected_releases H st self) of
        [] \<Rightarrow> Inl IndexError
      | r # rs \<Rightarrow> Inr r)"

definition slug :: string where
  "slug = ''security-releases''"

definition blogpost_link :: "security_release \<Rightarrow> string" where
  "blogpost_link self =
     ''https://www.djangoproject.com/weblog/'' @ map lower_char (strftime_Ybd (when_dt self))
     @ ''/'' @ slug @ ''/''"

subsection \<open>The CVE record of an issue\<close>

text \<open>
  The value \<open>cve_data\<close> returns: strings, lists, and dictionaries as the list of their
  items in insertion order.
\<close>

datatype json = JString string | JArray "json list" | JObject "(string \<times> json) list"

definition SEVERITY_LEVELS_DOCS :: string where
  "SEVERITY_LEVELS_DOCS =
     ''https://docs.djangoproject.com/en/dev/internals/security/''
     @ ''#security-issue-severity-levels''"

text \<open>
  Modelled from the spec: \<open>enumerate_items\<close> of \<open>releases/templatetags/generator_extras.py\<close>,
  which the source imports and which is not among the source files.  The specification
  (section 4.4) describes its result as "a generated enumeration of the fixed version
  list (e.g., "5.1.8 and 5.0.14"; for three or more: Oxford-comma-joined with "and" before
  the last)".
\<close>

fun enumerate_items :: "string list \<Rightarrow> string" where
  "enumerate_items [] = []"
| "enumerate_items [x] = x"
| "enumerate_items [x, y] = x @ '' and '' @ y"
| "enumerate_items xs = join '', '' (butlast xs) @ '', and '' @ last xs"

text \<open>The two entries that the loop of \<open>cve_data\<close> appends for one release.\<close>

definition version_entries :: "release \<Rightarrow> json list" where
  "version_entries release =
     [JObject [(''status'', JString ''affected''),
               (''version'', JString (feature_version release @ ''.0'')),
               (''lessThan'', JString (version release)),
               (''versionType'', JString ''semver'')],
      JObject [(''status'', JString ''unaffected''),
               (''version'', JString (version release)),
               (''lessThan'', JString (feature_version release @ ''.*'')),
               (''versionType'', JString ''semver'')]]"

text \<open>
  \<open>self.releases.filter(status="f").order_by("-version")\<close>: the order is that of the
  version strings, compared character by character as under a binary collation, not that
  of the version numbers.
\<close>

definition fixed_releases :: "store \<Rightarrow> security_issue \<Rightarrow> release list" where
  "fixed_releases st self =
     sorted_desc version (filter (\<lambda>r. status r = ''f'') (issue_releases st self))"

text \<open>
  \<open>SecurityIssue.cve_data\<close>.  The loop cannot raise; \<open>self.release.blogpost_link\<close> raises
  \<open>AttributeError\<close> when \<open>self.release\<close> is \<open>None\<close>.
\<close>

definition cve_data :: "store \<Rightarrow> security_issue \<Rightarrow> error + json" where
  "cve_data st self =
     (let affected_unaffected_versions = concat (map version_entries (fixed_releases st self));
          versions = map version (fixed_releases st self);
          enumerated_versions = enumerate_items versions
      in case issue_release st self of
           None \<Rightarrow> Inl AttributeError
         | Some release \<Rightarrow>
             Inr (JObject
               [(''title'', JString (remove_char (CHR 0x60) (summary self))),
                (''metrics'',
                   JArray [JObject [(''other'',
                     JObject [(''content'',
                                JObject [(''value'', JString (severity self)),
                                         (''namespace'', JString SEVERITY_LEVELS_DOCS)]),
                              (''type'', JString ''Django severity rating'')])]]),
                (''descriptions'',
                   JArray [JObject [(''lang'', JString ''en''),
                                    (''value'', JString (description self))]]),
                (''affected'',
                   JArray [JObject [(''packageName'', JString ''django''),
                                    (''collectionURL'',
                                       JString ''https://github.com/django/django/''),
                                    (''defaultStatus'', JString ''affected''),
                                    (''versions'', JArray affected_unaffected_versions)]]),
                (''references'',
                   JArray [JObject [(''url'', JString (blogpost_link release)),
                                    (''name'', JString (''Django security releases issued: ''
                                                        @ enumerated_versions)),
                                    (''tags'', JArray [JString ''vendor-advisory''])]]),
                (''credits'',
                   JArray [JObject [(''lang'', JString ''en''),
                                    (''type'', JString ''reporter''),
                                    (''value'', JString (''Django would like to thank ''
                                       @ reporter self @ '' for reporting this issue.''))]]),
                (''timeline'',
                   JArray [JObject [(''lang'', JString ''en''),
                                    (''time'', JString (isoformat (when_dt release))),
                                    (''value'', JString ''Made public.'')]]),
                (''datePublic'', JString (strftime_mdY (when_dt release)))]))"

text \<open>Reading a dictionary: \<open>d[k]\<close>, and \<open>xs[0]\<close> on a list.\<close>

fun json_get :: "string \<Rightarrow> json \<Rightarrow> json option" where
  "json_get k (JObject items) = map_of items k"
| "json_get k (JString s) = None"
| "json_get k (JArray xs) = None"

fun json_keys :: "json \<Rightarrow> string list" where
  "json_keys (JObject items) = map fst items"
| "json_keys (JString s) = []"
| "json_keys (JArray xs) = []"

subsection \<open>Field cleaning\<close>

definition CVE_TYPE_OTHER :: string where
  "CVE_TYPE_OTHER = ''Other or Unknown''"

text \<open>
  \<open>SecurityIssue.clean_fields\<close>: two checks, each raising \<open>ValidationError\<close>; otherwise the
  method falls off its end and the instance is what it was.  Python's \<open>not s\<close> on a string
  is \<open>s = ''''\<close>.
\<close>

definition clean_fields :: "security_issue \<Rightarrow> error + security_issue" where
  "clean_fields self =
     (if cve_type self = CVE_TYPE_OTHER \<and> other_type self = []
      then Inl (ValidationError
             (''\"Other type\" needs to be set when \"Vulnerability type\" is '' @ CVE_TYPE_OTHER))
      else if cve_type self \<noteq> CVE_TYPE_OTHER \<and> other_type self \<noteq> []
      then Inl (ValidationError
             (''\"Other type\" should be blank for \"'' @ cve_type self @ ''\".''))
      else Inr self)"

section \<open>The accepted version grammar\<close>

text \<open>
  The version strings of the specification's grammar (section 4.1): major and minor, an
  optional micro, and an optional kind token with an optional iteration, as in \<open>5.2\<close>,
  \<open>5.2.1\<close>, \<open>5.2a1\<close>, \<open>5.2rc3\<close>, \<open>5.2a\<close>, \<open>5.2final\<close>.  A string of the grammar is
  given by its parts; a kind token without iteration has the empty string as its
  iteration.
\<close>

definition is_number :: "string \<Rightarrow> bool" where
  "is_number ds = (ds \<noteq> [] \<and> list_all is_digit ds)"

definition pre_release_tags :: "string list" where
  "pre_release_tags = [''a'', ''b'', ''c'', ''rc'', ''alpha'', ''beta'']"

definition version_string ::
  "string \<Rightarrow> string \<Rightarrow> string option \<Rightarrow> (string \<times> string) option \<Rightarrow> string" where
  "version_string d1 d2 d3 pre =
     d1 @ ''.'' @ d2 @ (case d3 of None \<Rightarrow> [] | Some d \<Rightarrow> ''.'' @ d)
     @ (case pre of None \<Rightarrow> [] | Some (k, n) \<Rightarrow> k @ n)"

text \<open>The kind tokens of the grammar: the pre-release tags, and \<open>final\<close>.\<close>

definition kind_tokens :: "string list" where
  "kind_tokens = pre_release_tags @ [''final'']"

text \<open>
  The kind token and its iteration.  The iteration may be missing.  A \<open>final\<close> token with
  an iteration other than zero (\<open>5.2final3\<close>) is left out of the grammar: \<open>get_version\<close>
  writes no iteration for a final release, so the iteration of such a string is not kept
  by formatting.
\<close>

definition accepted_kind :: "(string \<times> string) option \<Rightarrow> bool" where
  "accepted_kind pre =
     (case pre of
        None \<Rightarrow> True
      | Some (k, n) \<Rightarrow>
          k \<in> set kind_tokens \<and> (n = [] \<or> is_number n)
          \<and> (k \<noteq> ''final'' \<or> int_of_digits n = 0))"

definition accepted ::
  "string \<Rightarrow> string \<Rightarrow> string option \<Rightarrow> (string \<times> string) option \<Rightarrow> bool" where
  "accepted d1 d2 d3 pre =
     (is_number d1 \<and> is_number d2
      \<and> (case d3 of None \<Rightarrow> True | Some d \<Rightarrow> is_number d)
      \<and> accepted_kind pre)"

text \<open>
  \<open>separated v s\<close>: the string \<open>v\<close> is the string \<open>s\<close> with separators \<open>-\<close> and \<open>_\<close> put in
  at any places (before, between and after the characters of \<open>s\<close>), read from the left:
  a separator of \<open>v\<close> is passed over, any other character of \<open>v\<close> is the next one of \<open>s\<close>.
\<close>

fun separated :: "string \<Rightarrow> string \<Rightarrow> bool" where
  "separated [] s = (s = [])"
| "separated (c # v) s =
     (if c = CHR ''-'' \<or> c = CHR ''_'' then separated v s
      else (case s of [] \<Rightarrow> False | x # xs \<Rightarrow> x = c \<and> separated v xs))"

text \<open>
  The status name a kind token stands for, and the tag that the normal form has for a
  token, written out.
\<close>

definition status_name :: "string \<Rightarrow> string" where
  "status_name k =
     (if k = ''a'' then ''alpha'' else if k = ''b'' then ''beta'' else if k = ''c'' then ''rc''
      else k)"

definition short_tag :: "string \<Rightarrow> string" where
  "short_tag k =
     (if k = ''a'' \<or> k = ''alpha'' then ''a''
      else if k = ''b'' \<or> k = ''beta'' then ''b''
      else if k = ''c'' \<or> k = ''rc'' then ''rc''
      else [])"

text \<open>The components that a kind token and its iteration contribute to the split string.\<close>

definition pre_tokens :: "(string \<times> string) option \<Rightarrow> tok list" where
  "pre_tokens pre =
     (case pre of
        None \<Rightarrow> []
      | Some (k, n) \<Rightarrow> TStr k # (if n = [] then [] else [TInt (int_of_digits n)]))"

section \<open>Auxiliary notions and example data\<close>

text \<open>
  The stored columns of the row \<open>r\<close> are the decomposition that the version tuple \<open>vt\<close>
  gives: three integers, the code of the status name, and the iteration.
\<close>

definition is_decomposition :: "release \<Rightarrow> tok list \<Rightarrow> bool" where
  "is_decomposition r vt =
     (vt = [TInt (major r), TInt (minor r), TInt (micro r), vt ! 3, TInt (iteration r)]
      \<and> (case vt ! 3 of
            TInt n \<Rightarrow> False
          | TStr name \<Rightarrow> RELEASE_STATUS_REVERSE name = Some (status r)))"

text \<open>
  \<open>Release(version=v, is_active=a, date=d, eol_date=e, is_lts=l)\<close>: the derived columns
  of an instance that has not been saved hold no value yet; they are written by \<open>save\<close>
  before anything reads them.
\<close>

definition Release ::
  "string \<Rightarrow> bool \<Rightarrow> date option \<Rightarrow> date option \<Rightarrow> bool \<Rightarrow> release" where
  "Release v a d e l =
     \<lparr>version = v, is_active = a, date = d, eol_date = e,
      major = 0, minor = 0, micro = 0, status = [], iteration = 0, is_lts = l\<rparr>"

text \<open>A stored row, written out.\<close>

definition stored ::
  "string \<Rightarrow> nat \<times> nat \<times> nat \<Rightarrow> string \<Rightarrow> nat \<Rightarrow> bool \<Rightarrow> date option \<Rightarrow> date option
     \<Rightarrow> bool \<Rightarrow> release" where
  "stored v k s i a d e l =
     \<lparr>version = v, is_active = a, date = d, eol_date = e,
      major = fst k, minor = fst (snd k), micro = snd (snd k), status = s, iteration = i,
      is_lts = l\<rparr>"

text \<open>
  The rows that \<open>TestReleaseManager.setUpTestData\<close> of the repository's tests passes to
  \<open>Release.objects.create\<close>, in that order, for a given \<open>today\<close>; a day is one unit.
\<close>

definition test_releases :: "date \<Rightarrow> release list" where
  "test_releases today =
     [Release ''1.4'' True (Some (today - 450)) (Some (today + 50)) True,
      Release ''1.5'' True (Some (today - 350)) (Some (today - 150)) False,
      Release ''1.6'' True (Some (today - 250)) (Some (today - 50)) False,
      Release ''1.7'' True (Some (today - 150)) (Some (today + 50)) False,
      Release ''1.8a1'' True (Some (today - 80)) (Some (today - 65)) False,
      Release ''1.8b1'' True (Some (today - 65)) (Some (today - 50)) True,
      Release ''1.8'' True (Some (today - 50)) (Some today) True,
      Release ''1.8.1'' True (Some today) None True,
      Release ''1.9'' True None None False,
      Release ''1.10'' False (Some today) None False]"

text \<open>The table these calls leave behind.\<close>

definition scenario :: "date \<Rightarrow> release list" where
  "scenario today =
     [stored ''1.4'' (1, 4, 0) ''f'' 0 True (Some (today - 450)) (Some (today + 50)) True,
      stored ''1.5'' (1, 5, 0) ''f'' 0 True (Some (today - 350)) (Some (today - 150)) False,
      stored ''1.6'' (1, 6, 0) ''f'' 0 True (Some (today - 250)) (Some (today - 50)) False,
      stored ''1.7'' (1, 7, 0) ''f'' 0 True (Some (today - 150)) (Some (today + 50)) False,
      stored ''1.8a1'' (1, 8, 0) ''a'' 1 True (Some (today - 80)) (Some (today - 65)) False,
      stored ''1.8b1'' (1, 8, 0) ''b'' 1 True (Some (today - 65)) (Some (today - 50)) True,
      stored ''1.8'' (1, 8, 0) ''f'' 0 True (Some (today - 50)) (Some today) True,
      stored ''1.8.1'' (1, 8, 1) ''f'' 0 True (Some today) None True,
      stored ''1.9'' (1, 9, 0) ''f'' 0 True None None False,
      stored ''1.10'' (1, 10, 0) ''f'' 0 False (Some today) None False]"

text \<open>
  A series whose final release has reached its end of life while its release candidate,
  which has no end-of-life date, is still published.
\<close>

definition series_ended :: "release list" where
  "series_ended =
     [stored ''2.0rc1'' (2, 0, 0) ''c'' 1 True (Some 50) None False,
      stored ''2.0'' (2, 0, 0) ''f'' 0 True (Some 100) (Some 200) False]"

text \<open>
  Data after \<open>test_render_cve_json\<close> of the repository's tests: a checklist, an issue
  attached to it, three releases linked to the issue, and a final 5.2 beside them.  The
  dates of the releases are the ordinals of 2025-04-02 and 2025-03-19.
\<close>

definition when_example :: datetime where
  "when_example =
     \<lparr>year = 2024, month = 12, day = 4, hour = 10, minute = 0, second = 0, microsecond = 0,
      utcoffset = Some 0\<rparr>"

definition checklist_example :: security_release where
  "checklist_example = \<lparr>checklist_id = 1, when_dt = when_example\<rparr>"

definition issue_example :: security_issue where
  "issue_example =
     \<lparr>issue_id = 1, cve_year_number = ''CVE-2024-53907'', cve_type = ''Other or Unknown'',
      other_type = ''DoS'', attack_type = ''Remote'', impact = ''Denial of Service'',
      severity = ''moderate'',
      summary = ''Potential denial-of-service in django.utils.html.strip_tags()'',
      description = ''The strip_tags() method is subject to a denial-of-service attack.'',
      blogdescription = [], reporter = ''jiangniao'', release_fk = Some 1,
      commit_hash_main = []\<rparr>"

definition store_example :: store where
  "store_example =
     \<lparr>release_table =
        [stored ''5.0.14'' (5, 0, 14) ''f'' 0 False (Some 739343) None False,
         stored ''5.1.8'' (5, 1, 8) ''f'' 0 False (Some 739343) None False,
         stored ''5.2rc1'' (5, 2, 0) ''c'' 1 False (Some 739329) None True,
         stored ''5.2'' (5, 2, 0) ''f'' 0 False (Some 739343) None True],
      securityrelease_table = [checklist_example],
      securityissue_table = [issue_example],
      through_table =
        [\<lparr>security_issue_id = 1, release_id = ''5.0.14'', commit_hash = []\<rparr>,
         \<lparr>security_issue_id = 1, release_id = ''5.1.8'', commit_hash = []\<rparr>,
         \<lparr>security_issue_id = 1, release_id = ''5.2rc1'', commit_hash = []\<rparr>]\<rparr>"

text \<open>A hash function on triples, for the examples.\<close>

definition hash_example :: "nat \<times> nat \<times> nat \<Rightarrow> int" where
  "hash_example k = int (fst k * 1000003 + fst (snd k) * 1009 + snd (snd k))"

text \<open>The example store, with the issue linked to 5.2rc1 and to the final 5.2 only.\<close>

definition store_prerelease_and_final :: store where
  "store_prerelease_and_final =
     store_example\<lparr>through_table :=
        [\<lparr>security_issue_id = 1, release_id = ''5.2rc1'', commit_hash = []\<rparr>,
         \<lparr>security_issue_id = 1, release_id = ''5.2'', commit_hash = []\<rparr>]\<rparr>"

text \<open>The example store, with the issue linked to 5.2rc1 only.\<close>

definition store_prerelease_only :: store where
  "store_prerelease_only =
     store_example\<lparr>through_table :=
        [\<lparr>security_issue_id = 1, release_id = ''5.2rc1'', commit_hash = []\<rparr>]\<rparr>"


text \<open>
  The releases 1.8.18, 1.9.13 and 1.10.7, all final and of the same day (the ordinal of
  2017-04-04), with the issue of the example linked to the three of them.
\<close>

definition store_minor_ten :: store where
  "store_minor_ten =
     \<lparr>release_table =
        [stored ''1.8.18'' (1, 8, 18) ''f'' 0 False (Some 736423) None True,
         stored ''1.9.13'' (1, 9, 13) ''f'' 0 False (Some 736423) None False,
         stored ''1.10.7'' (1, 10, 7) ''f'' 0 False (Some 736423) None False],
      securityrelease_table = [checklist_example],
      securityissue_table = [issue_example],
      through_table =
        [\<lparr>security_issue_id = 1, release_id = ''1.8.18'', commit_hash = []\<rparr>,
         \<lparr>security_issue_id = 1, release_id = ''1.9.13'', commit_hash = []\<rparr>,
         \<lparr>security_issue_id = 1, release_id = ''1.10.7'', commit_hash = []\<rparr>]\<rparr>"
section \<open>Properties of the version parser\<close>

subsection \<open>Decimal numerals\<close>

lemma digit_cases:
  "d < 10 \<Longrightarrow>
   d = 0 \<or> d = 1 \<or> d = 2 \<or> d = 3 \<or> d = 4 \<or> d = 5 \<or> d = 6 \<or> d = 7 \<or> d = 8 \<or> d = (9::nat)"
  by arith

lemma digit_char_props:
  assumes "d < 10"
  shows "is_digit (digit_char d)" and "digit_val (digit_char d) = d"
    and "digit_char d \<noteq> CHR ''.''" and "digit_char d \<noteq> CHR ''-''" and "digit_char d \<noteq> CHR ''_''"
  using digit_cases[OF assms]
  by (auto simp: digit_char_def is_digit_def digit_val_def)

lemma int_of_digits_snoc: "int_of_digits (ds @ [c]) = 10 * int_of_digits ds + digit_val c"
  by (simp add: int_of_digits_def)

lemma int_of_digits_Nil: "int_of_digits [] = 0"
  by (simp add: int_of_digits_def)

lemma str_nat_unfold:
  "str_nat n = (if n < 10 then [digit_char n] else str_nat (n div 10) @ [digit_char (n mod 10)])"
  by (rule str_nat.simps)

lemma str_nat_digits: "list_all is_digit (str_nat n)"
proof (induction n rule: str_nat.induct)
  case (1 n)
  show ?case
  proof (cases "n < 10")
    case True
    then show ?thesis by (subst str_nat_unfold) (simp add: digit_char_props)
  next
    case False
    with 1 have "list_all is_digit (str_nat (n div 10))" by simp
    moreover have "is_digit (digit_char (n mod 10))" by (rule digit_char_props) simp
    ultimately show ?thesis using False by (subst str_nat_unfold) simp
  qed
qed

lemma str_nat_nonempty: "str_nat n \<noteq> []"
  by (subst str_nat_unfold) simp

lemma int_of_digits_str_nat: "int_of_digits (str_nat n) = n"
proof (induction n rule: str_nat.induct)
  case (1 n)
  show ?case
  proof (cases "n < 10")
    case True
    then show ?thesis
      by (subst str_nat_unfold) (simp add: int_of_digits_def digit_char_props)
  next
    case False
    with 1 have "int_of_digits (str_nat (n div 10)) = n div 10" by simp
    moreover have "digit_val (digit_char (n mod 10)) = n mod 10" by (rule digit_char_props) simp
    ultimately show ?thesis using False
      by (subst str_nat_unfold) (simp add: int_of_digits_snoc)
  qed
qed

lemma length_str_nat_1: "n < 10 \<Longrightarrow> length (str_nat n) = 1"
  by (subst str_nat_unfold) simp

lemma length_str_nat_2: "n < 100 \<Longrightarrow> length (str_nat n) \<le> 2"
  by (subst str_nat_unfold) (simp add: length_str_nat_1)

lemma length_str_nat_3: "n < 1000 \<Longrightarrow> length (str_nat n) \<le> 3"
  using length_str_nat_2[of "n div 10"] by (subst str_nat_unfold) simp

lemma length_str_nat_4: "n < 10000 \<Longrightarrow> length (str_nat n) \<le> 4"
  using length_str_nat_3[of "n div 10"] by (subst str_nat_unfold) simp

lemma int_of_digits_zeros: "int_of_digits (replicate k CHR ''0'' @ ds) = int_of_digits ds"
proof -
  have "foldl (\<lambda>acc c. 10 * acc + digit_val c) 0 (replicate k CHR ''0'') = 0"
    by (induction k) (simp_all add: digit_val_def)
  then show ?thesis by (simp add: int_of_digits_def)
qed

lemma zfill_props:
  assumes "list_all is_digit s" and "length s \<le> w"
  shows "length (zfill w s) = w" and "list_all is_digit (zfill w s)"
    and "int_of_digits (zfill w s) = int_of_digits s"
proof -
  have z: "is_digit CHR ''0''" by (simp add: is_digit_def)
  from assms(2) show "length (zfill w s) = w" by (simp add: zfill_def)
  from assms(1) z show "list_all is_digit (zfill w s)" by (auto simp: zfill_def list_all_iff)
  show "int_of_digits (zfill w s) = int_of_digits s" by (simp add: zfill_def int_of_digits_zeros)
qed

lemma pad2_props:
  assumes "n < 100"
  shows "length (pad2 n) = 2" and "list_all is_digit (pad2 n)" and "int_of_digits (pad2 n) = n"
  unfolding pad2_def
  using zfill_props[OF str_nat_digits length_str_nat_2[OF assms]]
  by (simp_all add: int_of_digits_str_nat)

lemma year4_props:
  assumes "n < 10000"
  shows "length (zfill 4 (str_nat n)) = 4" and "list_all is_digit (zfill 4 (str_nat n))"
    and "int_of_digits (zfill 4 (str_nat n)) = n"
  using zfill_props[OF str_nat_digits length_str_nat_4[OF assms]]
  by (simp_all add: int_of_digits_str_nat)

subsection \<open>Splitting a string of the grammar\<close>

lemma takeWhile_run:
  assumes "\<forall>x \<in> set xs. P x" and "rest = [] \<or> \<not> P (hd rest)"
  shows "takeWhile P (xs @ rest) = xs" and "dropWhile P (xs @ rest) = rest"
proof -
  from assms(2) have t: "takeWhile P rest = []" and d: "dropWhile P rest = rest"
    by (cases rest; simp)+
  from assms(1) show "takeWhile P (xs @ rest) = xs"
    by (simp add: takeWhile_append2 t)
  from assms(1) show "dropWhile P (xs @ rest) = rest"
    by (simp add: dropWhile_append2 d)
qed

lemma tokens_number:
  assumes "is_number ds" and "rest = [] \<or> \<not> is_digit (hd rest)"
  shows "get_loose_version_tuple (ds @ rest) = TInt (int_of_digits ds) # get_loose_version_tuple rest"
proof -
  from assms(1) obtain c cs where ds: "ds = c # cs" and c: "is_digit c"
    and cs: "\<forall>x \<in> set cs. is_digit x"
    by (cases ds) (auto simp: is_number_def list_all_iff)
  from takeWhile_run[OF cs assms(2)] c show ?thesis
    by (simp add: ds)
qed

lemma tokens_dot: "get_loose_version_tuple (CHR ''.'' # rest) = get_loose_version_tuple rest"
  by (simp add: is_digit_def)

lemma tokens_tag:
  assumes "k \<noteq> []" and "\<forall>x \<in> set k. \<not> is_digit x \<and> x \<noteq> CHR ''.''"
    and "rest = [] \<or> \<not> (\<not> is_digit (hd rest) \<and> hd rest \<noteq> CHR ''.'')"
  shows "get_loose_version_tuple (k @ rest) = TStr k # get_loose_version_tuple rest"
proof -
  from assms(1,2) obtain c cs where k: "k = c # cs" and c: "\<not> is_digit c" "c \<noteq> CHR ''.''"
    and cs: "\<forall>x \<in> set cs. \<not> is_digit x \<and> x \<noteq> CHR ''.''"
    by (cases k) auto
  from takeWhile_run[of cs "\<lambda>x. \<not> is_digit x \<and> x \<noteq> CHR ''.''" rest, OF cs assms(3)] c
  show ?thesis by (simp add: k)
qed

lemma tag_chars:
  assumes "k \<in> set kind_tokens"
  shows "k \<noteq> []" and "\<forall>x \<in> set k. \<not> is_digit x \<and> x \<noteq> CHR ''.''"
    and "\<forall>x \<in> set k. x \<noteq> CHR ''-'' \<and> x \<noteq> CHR ''_''"
    and "\<not> is_digit (hd k)"
  using assms by (auto simp: kind_tokens_def pre_release_tags_def is_digit_def)

lemma number_chars:
  assumes "is_number ds"
  shows "ds \<noteq> []" and "is_digit (hd ds)" and "\<forall>x \<in> set ds. x \<noteq> CHR ''-'' \<and> x \<noteq> CHR ''_''"
    and "\<forall>x \<in> set ds. x \<noteq> CHR ''.''"
proof -
  from assms show "ds \<noteq> []" by (simp add: is_number_def)
  from assms show "is_digit (hd ds)" by (cases ds) (simp_all add: is_number_def)
  from assms show "\<forall>x \<in> set ds. x \<noteq> CHR ''-'' \<and> x \<noteq> CHR ''_''"
    by (auto simp: is_number_def list_all_iff is_digit_def)
  from assms show "\<forall>x \<in> set ds. x \<noteq> CHR ''.''"
    by (auto simp: is_number_def list_all_iff is_digit_def)
qed

lemma tokens_end_number:
  assumes "is_number ds"
  shows "get_loose_version_tuple ds = [TInt (int_of_digits ds)]"
  using tokens_number[OF assms, of "[]"] by simp

lemma tokens_pre:
  assumes "k \<in> set kind_tokens" and "n = [] \<or> is_number n"
  shows "get_loose_version_tuple (k @ n) = pre_tokens (Some (k, n))"
proof (cases "n = []")
  case True
  from tokens_tag[OF tag_chars(1,2)[OF assms(1)], of "[]"] show ?thesis
    by (simp add: True pre_tokens_def)
next
  case False
  with assms(2) have n: "is_number n" by simp
  have "n = [] \<or> \<not> (\<not> is_digit (hd n) \<and> hd n \<noteq> CHR ''.'')"
    using number_chars(2)[OF n] by simp
  from tokens_tag[OF tag_chars(1,2)[OF assms(1)] this] tokens_end_number[OF n]
  show ?thesis by (simp add: False pre_tokens_def)
qed

lemma accepted_kind_Some:
  assumes "accepted_kind (Some (k, n))"
  shows "k \<in> set kind_tokens" and "n = [] \<or> is_number n"
    and "k = ''final'' \<Longrightarrow> int_of_digits n = 0"
  using assms by (auto simp: accepted_kind_def)

lemma tokens_tail:
  assumes "accepted_kind pre"
  shows "get_loose_version_tuple (case pre of None \<Rightarrow> [] | Some (k, n) \<Rightarrow> k @ n) = pre_tokens pre"
    and "(case pre of None \<Rightarrow> [] | Some (k, n) \<Rightarrow> k @ n) = [] \<or>
         \<not> is_digit (hd (case pre of None \<Rightarrow> [] | Some (k, n) \<Rightarrow> k @ n))"
proof -
  show "get_loose_version_tuple (case pre of None \<Rightarrow> [] | Some (k, n) \<Rightarrow> k @ n) = pre_tokens pre"
  proof (cases pre)
    case None
    then show ?thesis by (simp add: pre_tokens_def)
  next
    case (Some p)
    obtain k n where p: "p = (k, n)" by (cases p)
    from assms have "accepted_kind (Some (k, n))" by (simp add: Some p)
    from tokens_pre[OF accepted_kind_Some(1,2)[OF this]] show ?thesis by (simp add: Some p)
  qed
  show "(case pre of None \<Rightarrow> [] | Some (k, n) \<Rightarrow> k @ n) = [] \<or>
         \<not> is_digit (hd (case pre of None \<Rightarrow> [] | Some (k, n) \<Rightarrow> k @ n))"
  proof (cases pre)
    case None
    then show ?thesis by simp
  next
    case (Some p)
    obtain k n where p: "p = (k, n)" by (cases p)
    from assms have "accepted_kind (Some (k, n))" by (simp add: Some p)
    from tag_chars(1,4)[OF accepted_kind_Some(1)[OF this]] show ?thesis by (simp add: Some p)
  qed
qed

lemma tokens_version_string:
  assumes "accepted d1 d2 d3 pre"
  shows "get_loose_version_tuple (version_string d1 d2 d3 pre) =
           [TInt (int_of_digits d1), TInt (int_of_digits d2)]
           @ (case d3 of None \<Rightarrow> [] | Some d \<Rightarrow> [TInt (int_of_digits d)]) @ pre_tokens pre"
proof -
  let ?tail = "case pre of None \<Rightarrow> [] | Some (k, n) \<Rightarrow> k @ n"
  from assms have n1: "is_number d1" and n2: "is_number d2"
    and p: "accepted_kind pre"
    by (simp_all add: accepted_def)
  note tl = tokens_tail[OF p]
  have step1: "\<And>rest. get_loose_version_tuple (d1 @ CHR ''.'' # rest) =
                  TInt (int_of_digits d1) # get_loose_version_tuple rest"
  proof -
    fix rest
    have "get_loose_version_tuple (d1 @ (CHR ''.'' # rest)) =
            TInt (int_of_digits d1) # get_loose_version_tuple (CHR ''.'' # rest)"
      by (rule tokens_number[OF n1]) (simp add: is_digit_def)
    then show "get_loose_version_tuple (d1 @ CHR ''.'' # rest) =
                  TInt (int_of_digits d1) # get_loose_version_tuple rest"
      by (simp only: tokens_dot)
  qed
  show ?thesis
  proof (cases d3)
    case None
    have "get_loose_version_tuple (d2 @ ?tail) =
            TInt (int_of_digits d2) # get_loose_version_tuple ?tail"
      by (rule tokens_number[OF n2 tl(2)])
    then have "get_loose_version_tuple (d2 @ ?tail) = TInt (int_of_digits d2) # pre_tokens pre"
      by (simp only: tl(1))
    moreover have "version_string d1 d2 d3 pre = d1 @ CHR ''.'' # (d2 @ ?tail)"
      by (simp add: version_string_def None)
    ultimately show ?thesis
      by (simp only: step1 None option.case append.simps)
  next
    case (Some d)
    with assms have n3: "is_number d" by (simp add: accepted_def)
    have a: "get_loose_version_tuple (d2 @ (CHR ''.'' # (d @ ?tail))) =
            TInt (int_of_digits d2) # get_loose_version_tuple (CHR ''.'' # (d @ ?tail))"
      by (rule tokens_number[OF n2]) (simp add: is_digit_def)
    have b: "get_loose_version_tuple (d @ ?tail) =
            TInt (int_of_digits d) # get_loose_version_tuple ?tail"
      by (rule tokens_number[OF n3 tl(2)])
    have "get_loose_version_tuple (d2 @ (CHR ''.'' # (d @ ?tail))) =
            TInt (int_of_digits d2) # TInt (int_of_digits d) # pre_tokens pre"
      using a b by (simp only: tokens_dot tl(1))
    moreover have "version_string d1 d2 d3 pre = d1 @ CHR ''.'' # (d2 @ (CHR ''.'' # (d @ ?tail)))"
      by (simp add: version_string_def Some)
    ultimately show ?thesis
      by (simp only: step1 Some option.case append.simps)
  qed
qed

lemma remove_char_id: "\<forall>x \<in> set s. x \<noteq> c \<Longrightarrow> remove_char c s = s"
  by (simp add: remove_char_def filter_id_conv)

lemma version_string_no_separators:
  assumes "accepted d1 d2 d3 pre"
  shows "remove_char CHR ''_'' (remove_char CHR ''-'' (version_string d1 d2 d3 pre)) =
           version_string d1 d2 d3 pre"
proof -
  have "\<forall>x \<in> set (version_string d1 d2 d3 pre). x \<noteq> CHR ''-'' \<and> x \<noteq> CHR ''_''"
  proof
    fix x assume "x \<in> set (version_string d1 d2 d3 pre)"
    then consider "x \<in> set d1" | "x = CHR ''.''" | "x \<in> set d2"
      | d where "d3 = Some d" "x \<in> set d"
      | k n where "pre = Some (k, n)" "x \<in> set k \<or> x \<in> set n"
      by (auto simp: version_string_def split: option.splits)
    then show "x \<noteq> CHR ''-'' \<and> x \<noteq> CHR ''_''"
    proof cases
      case 1
      with assms number_chars(3)[of d1] show ?thesis by (simp add: accepted_def)
    next
      case 2
      then show ?thesis by simp
    next
      case 3
      with assms number_chars(3)[of d2] show ?thesis by (simp add: accepted_def)
    next
      case 4
      with assms number_chars(3)[of d] show ?thesis by (simp add: accepted_def)
    next
      case 5
      with assms have "accepted_kind (Some (k, n))" by (simp add: accepted_def)
      note kn = accepted_kind_Some(1,2)[OF this]
      from 5(2) show ?thesis
      proof
        assume "x \<in> set k"
        with tag_chars(3)[OF kn(1)] show ?thesis by (rule bspec)
      next
        assume x: "x \<in> set n"
        then have "n \<noteq> []" by (cases n) simp_all
        with kn(2) have "is_number n" by simp
        from number_chars(3)[OF this] x show ?thesis by (rule bspec)
      qed
    qed
  qed
  then show ?thesis by (simp add: remove_char_id)
qed


text \<open>Removing the two separators from a string with separators gives the string.\<close>

lemma separated_remove:
  "separated v s \<Longrightarrow> remove_char CHR ''_'' (remove_char CHR ''-'' v) = s"
  by (induction v arbitrary: s) (auto simp: remove_char_def split: list.splits if_splits)
subsection \<open>Parsing and formatting\<close>

lemma status_name_tags:
  assumes "k \<in> set pre_release_tags"
  shows "status_name k \<in> {''alpha'', ''beta'', ''rc''}"
    and "short_tag k \<in> set pre_release_tags"
    and "status_name (short_tag k) = status_name k"
    and "status_suffix (status_name k) = Some (short_tag k)"
  using assms
  by (auto simp: pre_release_tags_def status_name_def short_tag_def status_abbreviations_def
      status_suffix_def)

lemma kind_token_cases:
  assumes "k \<in> set kind_tokens"
  shows "k = ''final'' \<or> k \<in> set pre_release_tags"
    and "status_name k = ''final'' \<longleftrightarrow> k = ''final''"
  using assms
  by (auto simp: kind_tokens_def pre_release_tags_def status_name_def status_abbreviations_def)

lemma normalize_tokens:
  assumes "accepted_kind pre"
  shows "normalize_version
           ([TInt a, TInt b] @ (case m of None \<Rightarrow> [] | Some c \<Rightarrow> [TInt c]) @ pre_tokens pre) =
         Inr [TInt a, TInt b, TInt (case m of None \<Rightarrow> 0 | Some c \<Rightarrow> c),
              TStr (case pre of None \<Rightarrow> ''final'' | Some (k, n) \<Rightarrow> status_name k),
              TInt (case pre of None \<Rightarrow> 0 | Some (k, n) \<Rightarrow> int_of_digits n)]"
proof (cases pre)
  case None
  then show ?thesis
    by (cases m) (simp_all add: normalize_version_def pre_tokens_def status_names_def)
next
  case (Some p)
  obtain k n where p: "p = (k, n)" by (cases p)
  from assms have "accepted_kind (Some (k, n))" by (simp add: Some p)
  from accepted_kind_Some(1)[OF this]
  have "k = ''a'' \<or> k = ''b'' \<or> k = ''c'' \<or> k = ''rc'' \<or> k = ''alpha'' \<or> k = ''beta''
        \<or> k = ''final''"
    by (simp add: kind_tokens_def pre_release_tags_def)
  then show ?thesis
    by (cases m; cases "n = []")
       (auto simp: Some p normalize_version_def pre_tokens_def status_names_def
          status_abbreviations_def status_name_def int_of_digits_Nil)
qed

lemma parse_version_string:
  assumes "accepted d1 d2 d3 pre"
    and "remove_char CHR ''_'' (remove_char CHR ''-'' v) = version_string d1 d2 d3 pre"
  shows "parse_version v =
         Inr [TInt (int_of_digits d1), TInt (int_of_digits d2),
              TInt (case d3 of None \<Rightarrow> 0 | Some d \<Rightarrow> int_of_digits d),
              TStr (case pre of None \<Rightarrow> ''final'' | Some (k, n) \<Rightarrow> status_name k),
              TInt (case pre of None \<Rightarrow> 0 | Some (k, n) \<Rightarrow> int_of_digits n)]"
proof -
  from assms(1) have p: "accepted_kind pre" by (simp add: accepted_def)
  have "(case d3 of None \<Rightarrow> [] | Some d \<Rightarrow> [TInt (int_of_digits d)]) =
        (case map_option int_of_digits d3 of None \<Rightarrow> [] | Some c \<Rightarrow> [TInt c])"
    by (cases d3) simp_all
  moreover have "(case d3 of None \<Rightarrow> 0 | Some d \<Rightarrow> int_of_digits d) =
        (case map_option int_of_digits d3 of None \<Rightarrow> 0 | Some c \<Rightarrow> c)"
    by (cases d3) simp_all
  ultimately show ?thesis
    unfolding parse_version_def assms(2) tokens_version_string[OF assms(1)]
    using normalize_tokens[OF p, of "int_of_digits d1" "int_of_digits d2"
        "map_option int_of_digits d3"]
    by simp
qed

lemma get_version_tuple:
  assumes "name \<in> {''alpha'', ''beta'', ''rc''}" and "status_suffix name = Some sub"
  shows "get_version [TInt a, TInt b, TInt c, TStr ''final'', TInt i] =
           Inr (str_nat a @ ''.'' @ str_nat b @ (if c = 0 then [] else ''.'' @ str_nat c))"
    and "get_version [TInt a, TInt b, TInt c, TStr name, TInt i] =
           Inr (str_nat a @ ''.'' @ str_nat b @ (if c = 0 then [] else ''.'' @ str_nat c)
                @ sub @ str_nat i)"
proof -
  show "get_version [TInt a, TInt b, TInt c, TStr ''final'', TInt i] =
           Inr (str_nat a @ ''.'' @ str_nat b @ (if c = 0 then [] else ''.'' @ str_nat c))"
    by (simp add: get_version_def get_main_version_def get_complete_version_def
        status_names_def)
  from assms show "get_version [TInt a, TInt b, TInt c, TStr name, TInt i] =
           Inr (str_nat a @ ''.'' @ str_nat b @ (if c = 0 then [] else ''.'' @ str_nat c)
                @ sub @ str_nat i)"
    by (auto simp: get_version_def get_main_version_def get_complete_version_def
        status_names_def)
qed

lemma is_number_str_nat: "is_number (str_nat n)"
  by (simp add: is_number_def str_nat_nonempty str_nat_digits)

text \<open>
  C2.  For every version string of the accepted grammar (major, minor, an optional micro,
  an optional kind token \<open>a\<close>, \<open>b\<close>, \<open>c\<close>, \<open>rc\<close>, \<open>alpha\<close>, \<open>beta\<close> or \<open>final\<close> with an
  optional iteration; a \<open>final\<close> token with an iteration other than zero is not of the
  grammar), written with separators \<open>-\<close> and \<open>_\<close> at any places, \<open>version_tuple\<close> on a
  fresh instance returns the 5-tuple of its parts, \<open>get_version\<close> formats this tuple as a
  string, this string is the normal form of the input (numbers without leading zeros,
  micro left out when it is zero, no kind for a final release, the tag as \<open>a\<close>, \<open>b\<close> or
  \<open>rc\<close> with its iteration otherwise), and parsing it yields the same tuple again.
\<close>

theorem parse_format_roundtrip:
  assumes "accepted d1 d2 d3 pre"
    and "separated (version r) (version_string d1 d2 d3 pre)"
  shows "\<exists>t s. fst (version_tuple (new_release r)) = Inr t
     \<and> t = [TInt (int_of_digits d1), TInt (int_of_digits d2),
            TInt (case d3 of None \<Rightarrow> 0 | Some d \<Rightarrow> int_of_digits d),
            TStr (case pre of None \<Rightarrow> ''final'' | Some (k, n) \<Rightarrow> status_name k),
            TInt (case pre of None \<Rightarrow> 0 | Some (k, n) \<Rightarrow> int_of_digits n)]
     \<and> get_version t = Inr s
     \<and> s = version_string (str_nat (int_of_digits d1)) (str_nat (int_of_digits d2))
           (case d3 of None \<Rightarrow> None
            | Some d \<Rightarrow> if int_of_digits d = 0 then None else Some (str_nat (int_of_digits d)))
           (case pre of None \<Rightarrow> None
            | Some (k, n) \<Rightarrow> if status_name k = ''final'' then None
                            else Some (short_tag k, str_nat (int_of_digits n)))
     \<and> fst (version_tuple (new_release (r\<lparr>version := s\<rparr>))) = Inr t"
proof -
  define t where "t = [TInt (int_of_digits d1), TInt (int_of_digits d2),
            TInt (case d3 of None \<Rightarrow> 0 | Some d \<Rightarrow> int_of_digits d),
            TStr (case pre of None \<Rightarrow> ''final'' | Some (k, n) \<Rightarrow> status_name k),
            TInt (case pre of None \<Rightarrow> 0 | Some (k, n) \<Rightarrow> int_of_digits n)]"
  define e3 where "e3 = (case d3 of None \<Rightarrow> None
            | Some d \<Rightarrow> if int_of_digits d = 0 then None else Some (str_nat (int_of_digits d)))"
  define epre where "epre = (case pre of None \<Rightarrow> None
            | Some (k, n) \<Rightarrow> if status_name k = ''final'' then None
                            else Some (short_tag k, str_nat (int_of_digits n)))"
  define s where "s = version_string (str_nat (int_of_digits d1)) (str_nat (int_of_digits d2))
           e3 epre"
  have fresh: "\<And>x. fst (version_tuple (new_release x)) = parse_version (version x)"
    by (simp add: version_tuple_def new_release_def split: sum.splits)
  have p1: "parse_version (version r) = Inr t"
    unfolding t_def by (rule parse_version_string[OF assms(1) separated_remove[OF assms(2)]])
  have kind: "\<And>k n. pre = Some (k, n) \<Longrightarrow>
                k \<in> set kind_tokens \<and> (k = ''final'' \<longrightarrow> int_of_digits n = 0)"
  proof -
    fix k n assume "pre = Some (k, n)"
    with assms(1) have a: "accepted_kind (Some (k, n))" by (simp add: accepted_def)
    from accepted_kind_Some(1)[OF a] accepted_kind_Some(3)[OF a]
    show "k \<in> set kind_tokens \<and> (k = ''final'' \<longrightarrow> int_of_digits n = 0)" by simp
  qed
  have tag: "\<And>k n. pre = Some (k, n) \<Longrightarrow> status_name k \<noteq> ''final'' \<Longrightarrow>
                k \<in> set pre_release_tags"
  proof -
    fix k n assume "pre = Some (k, n)" and nf: "status_name k \<noteq> ''final''"
    from kind[OF this(1)] have k: "k \<in> set kind_tokens" by simp
    from kind_token_cases(2)[OF k] nf have "k \<noteq> ''final''" by simp
    with kind_token_cases(1)[OF k] show "k \<in> set pre_release_tags" by simp
  qed
  have acc: "accepted (str_nat (int_of_digits d1)) (str_nat (int_of_digits d2)) e3 epre"
  proof -
    have "case e3 of None \<Rightarrow> True | Some d \<Rightarrow> is_number d"
      by (cases d3) (simp_all add: e3_def is_number_str_nat)
    moreover have "accepted_kind epre"
    proof (cases pre)
      case None
      then show ?thesis by (simp add: epre_def accepted_kind_def)
    next
      case (Some p)
      obtain k n where p: "p = (k, n)" by (cases p)
      show ?thesis
      proof (cases "status_name k = ''final''")
        case True
        then show ?thesis by (simp add: epre_def Some p accepted_kind_def)
      next
        case False
        from Some p have "pre = Some (k, n)" by simp
        from tag[OF this False] have k: "k \<in> set pre_release_tags" .
        from status_name_tags(2)[OF k] have "short_tag k \<in> set kind_tokens"
          and "short_tag k \<noteq> ''final''"
          by (auto simp: kind_tokens_def pre_release_tags_def)
        with False show ?thesis
          by (simp add: epre_def Some p accepted_kind_def is_number_str_nat)
      qed
    qed
    ultimately show ?thesis by (simp add: accepted_def is_number_str_nat)
  qed
  have same: "[TInt (int_of_digits (str_nat (int_of_digits d1))),
               TInt (int_of_digits (str_nat (int_of_digits d2))),
               TInt (case e3 of None \<Rightarrow> 0 | Some d \<Rightarrow> int_of_digits d),
               TStr (case epre of None \<Rightarrow> ''final'' | Some (k, n) \<Rightarrow> status_name k),
               TInt (case epre of None \<Rightarrow> 0 | Some (k, n) \<Rightarrow> int_of_digits n)] = t"
  proof -
    have a: "(case e3 of None \<Rightarrow> 0 | Some d \<Rightarrow> int_of_digits d) =
             (case d3 of None \<Rightarrow> 0 | Some d \<Rightarrow> int_of_digits d)"
      by (cases d3) (simp_all add: e3_def int_of_digits_str_nat)
    have bc: "(case epre of None \<Rightarrow> ''final'' | Some (k, n) \<Rightarrow> status_name k) =
              (case pre of None \<Rightarrow> ''final'' | Some (k, n) \<Rightarrow> status_name k)
            \<and> (case epre of None \<Rightarrow> 0 | Some (k, n) \<Rightarrow> int_of_digits n) =
              (case pre of None \<Rightarrow> 0 | Some (k, n) \<Rightarrow> int_of_digits n)"
    proof (cases pre)
      case None
      then show ?thesis by (simp add: epre_def)
    next
      case (Some p)
      obtain k n where p: "p = (k, n)" by (cases p)
      from Some p have pre: "pre = Some (k, n)" by simp
      show ?thesis
      proof (cases "status_name k = ''final''")
        case True
        from kind[OF pre] have k: "k \<in> set kind_tokens"
          and z: "k = ''final'' \<longrightarrow> int_of_digits n = 0" by simp_all
        from kind_token_cases(2)[OF k] True have "k = ''final''" by simp
        with z have "int_of_digits n = 0" by simp
        with True show ?thesis by (simp add: epre_def pre)
      next
        case False
        from status_name_tags(3)[OF tag[OF pre False]] False show ?thesis
          by (simp add: epre_def pre int_of_digits_str_nat)
      qed
    qed
    show ?thesis by (simp only: a bc t_def int_of_digits_str_nat)
  qed
  have p2: "parse_version s = Inr t"
    using parse_version_string[OF acc, of s] version_string_no_separators[OF acc]
    by (simp only: s_def[symmetric] same)
  have main: "\<And>i. get_version [TInt (int_of_digits d1), TInt (int_of_digits d2),
            TInt (case d3 of None \<Rightarrow> 0 | Some d \<Rightarrow> int_of_digits d), TStr ''final'', TInt i] =
          Inr (version_string (str_nat (int_of_digits d1)) (str_nat (int_of_digits d2))
                 e3 None)"
  proof -
    fix i
    have "get_version [TInt (int_of_digits d1), TInt (int_of_digits d2),
            TInt (case d3 of None \<Rightarrow> 0 | Some d \<Rightarrow> int_of_digits d), TStr ''final'', TInt i] =
          Inr (str_nat (int_of_digits d1) @ ''.'' @ str_nat (int_of_digits d2)
            @ (if (case d3 of None \<Rightarrow> 0 | Some d \<Rightarrow> int_of_digits d) = 0 then []
               else ''.'' @ str_nat (case d3 of None \<Rightarrow> 0 | Some d \<Rightarrow> int_of_digits d)))"
      by (rule get_version_tuple(1)[of "''alpha''" "''a''"]) (simp_all add: status_suffix_def)
    also have "\<dots> = Inr (version_string (str_nat (int_of_digits d1))
                           (str_nat (int_of_digits d2)) e3 None)"
      by (cases d3) (simp_all add: e3_def version_string_def)
    finally show "get_version [TInt (int_of_digits d1), TInt (int_of_digits d2),
            TInt (case d3 of None \<Rightarrow> 0 | Some d \<Rightarrow> int_of_digits d), TStr ''final'', TInt i] =
          Inr (version_string (str_nat (int_of_digits d1)) (str_nat (int_of_digits d2))
                 e3 None)" .
  qed
  have g: "get_version t = Inr s"
  proof (cases pre)
    case None
    then have "epre = None" by (simp add: epre_def)
    with main[of 0] show ?thesis by (simp only: t_def s_def None option.case)
  next
    case (Some p)
    obtain k n where p: "p = (k, n)" by (cases p)
    from Some p have pre: "pre = Some (k, n)" by simp
    show ?thesis
    proof (cases "status_name k = ''final''")
      case True
      then have "epre = None" by (simp add: epre_def pre)
      with main[of "int_of_digits n"] True show ?thesis
        by (simp only: t_def s_def pre option.case prod.case)
    next
      case False
      from tag[OF pre False] have k: "k \<in> set pre_release_tags" .
      from False have e: "epre = Some (short_tag k, str_nat (int_of_digits n))"
        by (simp add: epre_def pre)
      have "get_version t = Inr (str_nat (int_of_digits d1) @ ''.'' @ str_nat (int_of_digits d2)
            @ (if (case d3 of None \<Rightarrow> 0 | Some d \<Rightarrow> int_of_digits d) = 0 then []
               else ''.'' @ str_nat (case d3 of None \<Rightarrow> 0 | Some d \<Rightarrow> int_of_digits d))
            @ short_tag k @ str_nat (int_of_digits n))"
        unfolding t_def pre option.case prod.case
        by (rule get_version_tuple(2)[OF status_name_tags(1)[OF k] status_name_tags(4)[OF k]])
      also have "\<dots> = Inr s"
        by (cases d3) (simp_all add: s_def e3_def e version_string_def)
      finally show ?thesis .
    qed
  qed
  have r1: "fst (version_tuple (new_release r)) = Inr t" by (simp only: fresh p1)
  have r2: "fst (version_tuple (new_release (r\<lparr>version := s\<rparr>))) = Inr t"
    by (simp add: fresh p2)
  have r3: "s = version_string (str_nat (int_of_digits d1)) (str_nat (int_of_digits d2))
           (case d3 of None \<Rightarrow> None
            | Some d \<Rightarrow> if int_of_digits d = 0 then None else Some (str_nat (int_of_digits d)))
           (case pre of None \<Rightarrow> None
            | Some (k, n) \<Rightarrow> if status_name k = ''final'' then None
                            else Some (short_tag k, str_nat (int_of_digits n)))"
    by (simp only: s_def e3_def epre_def)
  show ?thesis
    apply (rule exI[of _ t], rule exI[of _ s])
    apply (intro conjI)
        apply (rule r1)
       apply (rule t_def)
      apply (rule g)
     apply (rule r3)
    apply (rule r2)
    done
qed

theorem parse_format_roundtrip_witness:
  "accepted ''5'' ''2'' None (Some (''b'', ''03''))
   \<and> separated (version (Release ''5.2-b_03'' True None None True))
       (version_string ''5'' ''2'' None (Some (''b'', ''03'')))
   \<and> version_string ''5'' ''2'' None (Some (''b'', ''03'')) = ''5.2b03''
   \<and> fst (version_tuple (new_release (Release ''5.2-b_03'' True None None True)))
       = Inr [TInt 5, TInt 2, TInt 0, TStr ''beta'', TInt 3]
   \<and> get_version [TInt 5, TInt 2, TInt 0, TStr ''beta'', TInt 3] = Inr ''5.2b3''
   \<and> fst (version_tuple (new_release
        ((Release ''5.2-b_03'' True None None True)\<lparr>version := ''5.2b3''\<rparr>)))
       = Inr [TInt 5, TInt 2, TInt 0, TStr ''beta'', TInt 3]"
proof -
  have h1: "accepted ''5'' ''2'' None (Some (''b'', ''03''))"
    by (simp add: accepted_def accepted_kind_def is_number_def is_digit_def kind_tokens_def
        pre_release_tags_def)
  have h2: "separated (version (Release ''5.2-b_03'' True None None True))
       (version_string ''5'' ''2'' None (Some (''b'', ''03'')))"
    by (simp add: Release_def version_string_def)
  have v: "version_string ''5'' ''2'' None (Some (''b'', ''03'')) = ''5.2b03''"
    by (simp add: version_string_def)
  have e: "[TInt (int_of_digits ''5''), TInt (int_of_digits ''2''),
            TInt (case None of None \<Rightarrow> 0 | Some d \<Rightarrow> int_of_digits d),
            TStr (case Some (''b'', ''03'') of None \<Rightarrow> ''final'' | Some (k, n) \<Rightarrow> status_name k),
            TInt (case Some (''b'', ''03'') of None \<Rightarrow> 0 | Some (k, n) \<Rightarrow> int_of_digits n)]
         = [TInt 5, TInt 2, TInt 0, TStr ''beta'', TInt 3]"
    by (simp add: int_of_digits_def digit_val_def status_name_def status_abbreviations_def)
  have s: "version_string (str_nat (int_of_digits ''5'')) (str_nat (int_of_digits ''2''))
           (case None of None \<Rightarrow> None
            | Some d \<Rightarrow> if int_of_digits d = 0 then None else Some (str_nat (int_of_digits d)))
           (case Some (''b'', ''03'') of None \<Rightarrow> None
            | Some (k, n) \<Rightarrow> if status_name k = ''final'' then None
                            else Some (short_tag k, str_nat (int_of_digits n)))
         = ''5.2b3''"
    by (simp add: int_of_digits_def digit_val_def version_string_def str_nat_unfold
        digit_char_def short_tag_def status_name_def status_abbreviations_def status_suffix_def)
  from parse_format_roundtrip[OF h1 h2]
  have "fst (version_tuple (new_release (Release ''5.2-b_03'' True None None True)))
       = Inr [TInt 5, TInt 2, TInt 0, TStr ''beta'', TInt 3]
   \<and> get_version [TInt 5, TInt 2, TInt 0, TStr ''beta'', TInt 3] = Inr ''5.2b3''
   \<and> fst (version_tuple (new_release
        ((Release ''5.2-b_03'' True None None True)\<lparr>version := ''5.2b3''\<rparr>)))
       = Inr [TInt 5, TInt 2, TInt 0, TStr ''beta'', TInt 3]"
    unfolding e s by blast
  with h1 h2 v show ?thesis by (intro conjI) blast+
qed

text \<open>
  The examples of the claim, a string with separators, a tag without iteration and the
  token \<open>final\<close>, evaluated.
\<close>

lemma roundtrip_examples:
  "parse_version ''5.2'' = Inr [TInt 5, TInt 2, TInt 0, TStr ''final'', TInt 0]"
  "get_version [TInt 5, TInt 2, TInt 0, TStr ''final'', TInt 0] = Inr ''5.2''"
  "parse_version ''5.2a1'' = Inr [TInt 5, TInt 2, TInt 0, TStr ''alpha'', TInt 1]"
  "get_version [TInt 5, TInt 2, TInt 0, TStr ''alpha'', TInt 1] = Inr ''5.2a1''"
  "parse_version ''5.2-rc_3'' = Inr [TInt 5, TInt 2, TInt 0, TStr ''rc'', TInt 3]"
  "get_version [TInt 5, TInt 2, TInt 0, TStr ''rc'', TInt 3] = Inr ''5.2rc3''"
  "parse_version ''5.2.0'' = Inr [TInt 5, TInt 2, TInt 0, TStr ''final'', TInt 0]"
  "parse_version ''5.2a'' = Inr [TInt 5, TInt 2, TInt 0, TStr ''alpha'', TInt 0]"
  "get_version [TInt 5, TInt 2, TInt 0, TStr ''alpha'', TInt 0] = Inr ''5.2a0''"
  "parse_version ''5.2a0'' = Inr [TInt 5, TInt 2, TInt 0, TStr ''alpha'', TInt 0]"
  "parse_version ''5.2final'' = Inr [TInt 5, TInt 2, TInt 0, TStr ''final'', TInt 0]"
  by (simp_all add: parse_version_def normalize_version_def remove_char_def is_digit_def
      int_of_digits_def digit_val_def status_names_def status_abbreviations_def
      get_version_def get_main_version_def get_complete_version_def status_suffix_def
      str_nat_unfold digit_char_def)

text \<open>
  The form left out of the grammar: the iteration of a \<open>final\<close> token is parsed, is not
  written by \<open>get_version\<close>, and is zero when the formatted string is parsed.
\<close>

lemma final_iteration_not_kept:
  "parse_version ''5.2final3'' = Inr [TInt 5, TInt 2, TInt 0, TStr ''final'', TInt 3]"
  "get_version [TInt 5, TInt 2, TInt 0, TStr ''final'', TInt 3] = Inr ''5.2''"
  "parse_version ''5.2'' = Inr [TInt 5, TInt 2, TInt 0, TStr ''final'', TInt 0]"
  by (simp_all add: parse_version_def normalize_version_def remove_char_def is_digit_def
      int_of_digits_def digit_val_def status_names_def status_abbreviations_def
      get_version_def get_main_version_def get_complete_version_def status_suffix_def
      str_nat_unfold digit_char_def)
section \<open>Properties of the query engine\<close>

subsection \<open>Sorting and the loop of \<open>unsupported\<close>\<close>

lemma set_sorted_desc: "set (sorted_desc k xs) = set xs"
  by (simp add: sorted_desc_def)

lemma mset_sorted_desc: "mset (sorted_desc k xs) = mset xs"
  by (simp add: sorted_desc_def)

lemma sorted_sorted_desc: "sorted_wrt (\<lambda>a b. k b \<le> k a) (sorted_desc k xs)"
proof -
  have "sorted (map k (sort_key k (rev xs)))"
    by (rule sorted_sort_key)
  then have "sorted_wrt (\<lambda>a b. k a \<le> k b) (sort_key k (rev xs))"
    by (simp add: sorted_map)
  then show ?thesis
    by (simp add: sorted_desc_def sorted_wrt_rev)
qed

lemma date_lte_iff: "date_lte d at = (\<exists>x. d = Some x \<and> x \<le> at)"
  by (cases d) (simp_all add: date_lte_def)

lemma unsupported_loop_acc:
  "unsupported_loop cs excl acc = acc @ unsupported_loop cs excl []"
proof (induction cs arbitrary: excl acc)
  case Nil
  show ?case by simp
next
  case (Cons c cs)
  show ?case
  proof (cases "(major c, minor c) \<in> excl")
    case True
    then show ?thesis using Cons.IH[of excl acc] by simp
  next
    case False
    then show ?thesis
      using Cons.IH[of "insert (major c, minor c) excl" "acc @ [c]"]
            Cons.IH[of "insert (major c, minor c) excl" "[c]"]
      by simp
  qed
qed

lemma unsupported_loop_Cons:
  "unsupported_loop (c # cs) excl [] =
     (if (major c, minor c) \<notin> excl
      then c # unsupported_loop cs (insert (major c, minor c) excl) []
      else unsupported_loop cs excl [])"
  using unsupported_loop_acc[of cs "insert (major c, minor c) excl" "[c]"] by simp

lemma unsupported_loop_sound:
  "r \<in> set (unsupported_loop cs excl []) \<Longrightarrow> r \<in> set cs \<and> (major r, minor r) \<notin> excl"
proof (induction cs arbitrary: excl)
  case Nil
  then show ?case by simp
next
  case (Cons c cs)
  then show ?case
    by (auto simp: unsupported_loop_Cons simp del: unsupported_loop.simps split: if_splits)
qed

lemma unsupported_loop_complete:
  "c \<in> set cs \<Longrightarrow> (major c, minor c) \<notin> excl \<Longrightarrow>
   \<exists>r \<in> set (unsupported_loop cs excl []). major r = major c \<and> minor r = minor c"
proof (induction cs arbitrary: excl)
  case Nil
  then show ?case by simp
next
  case (Cons x xs)
  show ?case
  proof (cases "(major x, minor x) \<in> excl")
    case True
    with Cons.prems have "c \<noteq> x" by blast
    with Cons.prems(1) have "c \<in> set xs" by simp
    moreover from True have "unsupported_loop (x # xs) excl [] = unsupported_loop xs excl []"
      by (simp add: unsupported_loop_Cons del: unsupported_loop.simps)
    ultimately show ?thesis using Cons.IH[OF _ Cons.prems(2)] by simp
  next
    case False
    then have unf: "unsupported_loop (x # xs) excl [] =
        x # unsupported_loop xs (insert (major x, minor x) excl) []"
      by (simp add: unsupported_loop_Cons del: unsupported_loop.simps)
    show ?thesis
    proof (cases "major x = major c \<and> minor x = minor c")
      case True
      then show ?thesis unfolding unf by simp
    next
      case no: False
      then have "c \<noteq> x" by blast
      with Cons.prems(1) have cxs: "c \<in> set xs" by simp
      from no Cons.prems(2) have "(major c, minor c) \<notin> insert (major x, minor x) excl"
        by auto
      from Cons.IH[OF cxs this]
      obtain r where "r \<in> set (unsupported_loop xs (insert (major x, minor x) excl) [])"
        and "major r = major c \<and> minor r = minor c"
        by blast
      then show ?thesis unfolding unf by (intro bexI[of _ r]) simp_all
    qed
  qed
qed

lemma unsupported_loop_distinct:
  "distinct (map (\<lambda>r. (major r, minor r)) (unsupported_loop cs excl []))"
proof (induction cs arbitrary: excl)
  case Nil
  show ?case by simp
next
  case (Cons c cs)
  show ?case
  proof (cases "(major c, minor c) \<in> excl")
    case True
    then show ?thesis using Cons.IH[of excl] by (simp add: unsupported_loop_Cons del: unsupported_loop.simps)
  next
    case False
    have "(major c, minor c) \<notin> (\<lambda>r. (major r, minor r)) ` set (unsupported_loop cs (insert (major c, minor c) excl) [])"
    proof
      assume "(major c, minor c) \<in> (\<lambda>r. (major r, minor r)) ` set (unsupported_loop cs (insert (major c, minor c) excl) [])"
      then obtain r where r: "r \<in> set (unsupported_loop cs (insert (major c, minor c) excl) [])"
        and eq: "(major c, minor c) = (major r, minor r)" by blast
      from unsupported_loop_sound[OF r] eq show False by simp
    qed
    with False show ?thesis
      using Cons.IH[of "insert (major c, minor c) excl"] by (simp add: unsupported_loop_Cons del: unsupported_loop.simps)
  qed
qed

lemma unsupported_loop_sorted:
  "sorted_wrt R cs \<Longrightarrow> sorted_wrt R (unsupported_loop cs excl [])"
proof (induction cs arbitrary: excl)
  case Nil
  show ?case by simp
next
  case (Cons c cs)
  from Cons.prems have tl: "sorted_wrt R cs" and hd: "\<forall>x \<in> set cs. R c x" by auto
  show ?case
  proof (cases "(major c, minor c) \<in> excl")
    case True
    then show ?thesis using Cons.IH[OF tl, of excl] by (simp add: unsupported_loop_Cons del: unsupported_loop.simps)
  next
    case False
    have "\<forall>x \<in> set (unsupported_loop cs (insert (major c, minor c) excl) []). R c x"
      using hd unsupported_loop_sound[of _ cs "insert (major c, minor c) excl"] by blast
    with False show ?thesis
      using Cons.IH[OF tl, of "insert (major c, minor c) excl"] by (simp add: unsupported_loop_Cons del: unsupported_loop.simps)
  qed
qed

lemma unsupported_loop_latest:
  "sorted_wrt (\<lambda>a b. (major b, minor b, micro b) \<le> (major a, minor a, micro a)) cs \<Longrightarrow>
   r \<in> set (unsupported_loop cs excl []) \<Longrightarrow> c \<in> set cs \<Longrightarrow>
   major c = major r \<Longrightarrow> minor c = minor r \<Longrightarrow> micro c \<le> micro r"
proof (induction cs arbitrary: excl)
  case Nil
  then show ?case by simp
next
  case (Cons x xs)
  from Cons.prems(1)
  have tl: "sorted_wrt (\<lambda>a b. (major b, minor b, micro b) \<le> (major a, minor a, micro a)) xs"
    and hd: "\<forall>y \<in> set xs. (major y, minor y, micro y) \<le> (major x, minor x, micro x)"
    by auto
  show ?case
  proof (cases "(major x, minor x) \<in> excl")
    case True
    with Cons.prems(2) have r: "r \<in> set (unsupported_loop xs excl [])"
      by (simp add: unsupported_loop_Cons del: unsupported_loop.simps)
    then have "(major r, minor r) \<notin> excl" using unsupported_loop_sound by blast
    with True Cons.prems(4,5) have "c \<noteq> x" by auto
    with Cons.prems(3) have "c \<in> set xs" by auto
    from Cons.IH[OF tl r this Cons.prems(4,5)] show ?thesis .
  next
    case False
    with Cons.prems(2) have
      "r = x \<or> r \<in> set (unsupported_loop xs (insert (major x, minor x) excl) [])"
      by (simp add: unsupported_loop_Cons del: unsupported_loop.simps)
    then show ?thesis
    proof
      assume rx: "r = x"
      show ?thesis
      proof (cases "c = x")
        case True
        with rx show ?thesis by simp
      next
        case False
        with Cons.prems(3) have "c \<in> set xs" by auto
        with hd have "(major c, minor c, micro c) \<le> (major x, minor x, micro x)" by blast
        with rx Cons.prems(4,5) show ?thesis by auto
      qed
    next
      assume r: "r \<in> set (unsupported_loop xs (insert (major x, minor x) excl) [])"
      then have "(major r, minor r) \<notin> insert (major x, minor x) excl"
        using unsupported_loop_sound by blast
      with Cons.prems(4,5) have "c \<noteq> x" by auto
      with Cons.prems(3) have "c \<in> set xs" by auto
      from Cons.IH[OF tl r this Cons.prems(4,5)] show ?thesis .
    qed
  qed
qed

lemma supported_Some_at:
  "supported (Some (at_or_today at today)) today table = supported at today table"
  by (cases at) (simp_all add: supported_def published_def at_or_today_def)

lemma set_unsupported_candidates:
  "set (unsupported_candidates at table) =
     {r \<in> set table. 1 \<le> major r \<and> (\<exists>e. eol_date r = Some e \<and> e \<le> at) \<and> status r = ''f''}"
  by (auto simp: unsupported_candidates_def set_sorted_desc date_lte_iff)

lemma unsupported_unfold:
  "unsupported at today table =
     unsupported_loop (unsupported_candidates (at_or_today at today) table)
       ((\<lambda>r. (major r, minor r)) ` set (supported at today table)) []"
  by (simp add: unsupported_def Let_def supported_Some_at)


lemma set_supported:
  "set (supported (Some d) today table) =
     {s \<in> set table. status s = ''f'' \<and> 1 \<le> major s \<and> is_active s
        \<and> (\<exists>x. date s = Some x \<and> x \<le> d) \<and> \<not> (\<exists>e. eol_date s = Some e \<and> e \<le> d)}"
  by (auto simp: supported_def published_def at_or_today_def Let_def set_sorted_desc
      date_lte_iff)

lemma unsupported_rows:
  "(\<forall>r \<in> set (unsupported at today table).
       r \<in> set table \<and> status r = ''f'' \<and> 1 \<le> major r
       \<and> (\<exists>e. eol_date r = Some e \<and> e \<le> at_or_today at today)
       \<and> (\<forall>s \<in> set (supported at today table). (major s, minor s) \<noteq> (major r, minor r))
       \<and> (\<forall>c \<in> set table.
            status c = ''f'' \<and> 1 \<le> major c \<and> (\<exists>e. eol_date c = Some e \<and> e \<le> at_or_today at today)
            \<and> major c = major r \<and> minor c = minor r \<longrightarrow> micro c \<le> micro r))
   \<and> distinct (map (\<lambda>r. (major r, minor r)) (unsupported at today table))
   \<and> sorted_wrt (\<lambda>a b. (major b, minor b, micro b) \<le> (major a, minor a, micro a))
        (unsupported at today table)
   \<and> (\<forall>c \<in> set table.
         status c = ''f'' \<and> 1 \<le> major c \<and> (\<exists>e. eol_date c = Some e \<and> e \<le> at_or_today at today)
         \<and> (\<forall>s \<in> set (supported at today table). (major s, minor s) \<noteq> (major c, minor c))
         \<longrightarrow> (\<exists>r \<in> set (unsupported at today table). major r = major c \<and> minor r = minor c))"
proof -
  let ?at = "at_or_today at today"
  let ?cs = "unsupported_candidates ?at table"
  let ?ex = "(\<lambda>r. (major r, minor r)) ` set (supported at today table)"
  have srt: "sorted_wrt (\<lambda>a b. (major b, minor b, micro b) \<le> (major a, minor a, micro a)) ?cs"
    unfolding unsupported_candidates_def by (rule sorted_sorted_desc)
  have 1: "\<forall>r \<in> set (unsupported at today table).
       r \<in> set table \<and> status r = ''f'' \<and> 1 \<le> major r
       \<and> (\<exists>e. eol_date r = Some e \<and> e \<le> ?at)
       \<and> (\<forall>s \<in> set (supported at today table). (major s, minor s) \<noteq> (major r, minor r))
       \<and> (\<forall>c \<in> set table.
            status c = ''f'' \<and> 1 \<le> major c \<and> (\<exists>e. eol_date c = Some e \<and> e \<le> ?at)
            \<and> major c = major r \<and> minor c = minor r \<longrightarrow> micro c \<le> micro r)"
  proof
    fix r assume "r \<in> set (unsupported at today table)"
    then have r: "r \<in> set (unsupported_loop ?cs ?ex [])" by (simp add: unsupported_unfold)
    from unsupported_loop_sound[OF r] have rc: "r \<in> set ?cs" and rex: "(major r, minor r) \<notin> ?ex"
      by auto
    have late: "\<forall>c \<in> set table.
            status c = ''f'' \<and> 1 \<le> major c \<and> (\<exists>e. eol_date c = Some e \<and> e \<le> ?at)
            \<and> major c = major r \<and> minor c = minor r \<longrightarrow> micro c \<le> micro r"
    proof (intro ballI impI)
      fix c assume "c \<in> set table"
        and c: "status c = ''f'' \<and> 1 \<le> major c \<and> (\<exists>e. eol_date c = Some e \<and> e \<le> ?at)
            \<and> major c = major r \<and> minor c = minor r"
      then have "c \<in> set ?cs" by (simp add: set_unsupported_candidates)
      from unsupported_loop_latest[OF srt r this] c show "micro c \<le> micro r" by simp
    qed
    have nosup: "\<forall>s \<in> set (supported at today table). (major s, minor s) \<noteq> (major r, minor r)"
    proof
      fix s assume "s \<in> set (supported at today table)"
      then have "(major s, minor s) \<in> ?ex" by (rule imageI)
      with rex show "(major s, minor s) \<noteq> (major r, minor r)" by auto
    qed
    from rc have cand: "r \<in> set table \<and> status r = ''f'' \<and> 1 \<le> major r
       \<and> (\<exists>e. eol_date r = Some e \<and> e \<le> ?at)"
      by (simp add: set_unsupported_candidates)
    show "r \<in> set table \<and> status r = ''f'' \<and> 1 \<le> major r
       \<and> (\<exists>e. eol_date r = Some e \<and> e \<le> ?at)
       \<and> (\<forall>s \<in> set (supported at today table). (major s, minor s) \<noteq> (major r, minor r))
       \<and> (\<forall>c \<in> set table.
            status c = ''f'' \<and> 1 \<le> major c \<and> (\<exists>e. eol_date c = Some e \<and> e \<le> ?at)
            \<and> major c = major r \<and> minor c = minor r \<longrightarrow> micro c \<le> micro r)"
    proof (intro conjI)
      from cand show "r \<in> set table" by (rule conjunct1)
      from cand show "status r = ''f''" by simp
      from cand show "1 \<le> major r" by simp
      from cand show "\<exists>e. eol_date r = Some e \<and> e \<le> ?at" by simp
      from nosup show "\<forall>s \<in> set (supported at today table). (major s, minor s) \<noteq> (major r, minor r)" .
      from late show "\<forall>c \<in> set table.
            status c = ''f'' \<and> 1 \<le> major c \<and> (\<exists>e. eol_date c = Some e \<and> e \<le> ?at)
            \<and> major c = major r \<and> minor c = minor r \<longrightarrow> micro c \<le> micro r" .
    qed
  qed
  have 2: "distinct (map (\<lambda>r. (major r, minor r)) (unsupported at today table))"
    by (simp only: unsupported_unfold unsupported_loop_distinct)
  have 3: "sorted_wrt (\<lambda>a b. (major b, minor b, micro b) \<le> (major a, minor a, micro a))
        (unsupported at today table)"
    unfolding unsupported_unfold by (rule unsupported_loop_sorted[OF srt])
  have 4: "\<forall>c \<in> set table.
         status c = ''f'' \<and> 1 \<le> major c \<and> (\<exists>e. eol_date c = Some e \<and> e \<le> ?at)
         \<and> (\<forall>s \<in> set (supported at today table). (major s, minor s) \<noteq> (major c, minor c))
         \<longrightarrow> (\<exists>r \<in> set (unsupported at today table). major r = major c \<and> minor r = minor c)"
  proof (intro ballI impI)
    fix c assume "c \<in> set table"
      and c: "status c = ''f'' \<and> 1 \<le> major c \<and> (\<exists>e. eol_date c = Some e \<and> e \<le> ?at)
         \<and> (\<forall>s \<in> set (supported at today table). (major s, minor s) \<noteq> (major c, minor c))"
    then have "c \<in> set ?cs" by (simp add: set_unsupported_candidates)
    moreover from c have "(major c, minor c) \<notin> ?ex" by auto
    ultimately show "\<exists>r \<in> set (unsupported at today table). major r = major c \<and> minor r = minor c"
      unfolding unsupported_unfold by (rule unsupported_loop_complete)
  qed
  from 1 2 3 4 show ?thesis by (intro conjI)
qed

subsection \<open>The test scenario, evaluated\<close>

lemmas parse_defs = parse_version_def normalize_version_def remove_char_def is_digit_def
  int_of_digits_def digit_val_def status_names_def status_abbreviations_def

lemma scenario_created: "create_all (test_releases today) [] = Inr (scenario today)"
  by (simp add: test_releases_def scenario_def create_def save_def version_tuple_def
      new_release_def Release_def stored_def parse_defs RELEASE_STATUS_REVERSE_def
      db_save_def db_update_eol_def Let_def)

lemma published_scenario:
  "published None today (scenario today) =
     [stored ''1.8.1'' (1, 8, 1) ''f'' 0 True (Some today) None True,
      stored ''1.7'' (1, 7, 0) ''f'' 0 True (Some (today - 150)) (Some (today + 50)) False,
      stored ''1.4'' (1, 4, 0) ''f'' 0 True (Some (today - 450)) (Some (today + 50)) True]"
  by (simp add: scenario_def stored_def published_def sorted_desc_def date_lte_def
      at_or_today_def)

lemma candidates_scenario:
  "unsupported_candidates today (scenario today) =
     [stored ''1.8'' (1, 8, 0) ''f'' 0 True (Some (today - 50)) (Some today) True,
      stored ''1.6'' (1, 6, 0) ''f'' 0 True (Some (today - 250)) (Some (today - 50)) False,
      stored ''1.5'' (1, 5, 0) ''f'' 0 True (Some (today - 350)) (Some (today - 150)) False]"
  by (simp add: scenario_def stored_def unsupported_candidates_def sorted_desc_def date_lte_def)

lemma unsupported_scenario:
  "unsupported None today (scenario today) =
     [stored ''1.6'' (1, 6, 0) ''f'' 0 True (Some (today - 250)) (Some (today - 50)) False,
      stored ''1.5'' (1, 5, 0) ''f'' 0 True (Some (today - 350)) (Some (today - 150)) False]"
proof -
  have "unsupported None today (scenario today) =
     unsupported_loop (unsupported_candidates today (scenario today))
       (set (map (\<lambda>r. (major r, minor r))
          (filter (\<lambda>r. status r = ''f'') (published None today (scenario today))))) []"
    by (simp add: unsupported_unfold supported_def at_or_today_def)
  then show ?thesis
    by (simp add: published_scenario candidates_scenario stored_def)
qed


text \<open>
  The same table on other days: \<open>today\<close> is the day the scenario was set up, \<open>now\<close> the day
  of the call, and the call names the day it asks about or, 1000 days later, names none.
\<close>

lemma published_scenario_at:
  "published (Some today) now (scenario today) =
     [stored ''1.8.1'' (1, 8, 1) ''f'' 0 True (Some today) None True,
      stored ''1.7'' (1, 7, 0) ''f'' 0 True (Some (today - 150)) (Some (today + 50)) False,
      stored ''1.4'' (1, 4, 0) ''f'' 0 True (Some (today - 450)) (Some (today + 50)) True]"
  by (simp add: scenario_def stored_def published_def sorted_desc_def date_lte_def
      at_or_today_def)

lemma published_scenario_later:
  "published None (today + 1000) (scenario today) =
     [stored ''1.8.1'' (1, 8, 1) ''f'' 0 True (Some today) None True]"
  by (simp add: scenario_def stored_def published_def sorted_desc_def date_lte_def
      at_or_today_def)

lemma unsupported_scenario_at:
  "unsupported (Some today) now (scenario today) =
     [stored ''1.6'' (1, 6, 0) ''f'' 0 True (Some (today - 250)) (Some (today - 50)) False,
      stored ''1.5'' (1, 5, 0) ''f'' 0 True (Some (today - 350)) (Some (today - 150)) False]"
proof -
  have "unsupported (Some today) now (scenario today) =
     unsupported_loop (unsupported_candidates today (scenario today))
       (set (map (\<lambda>r. (major r, minor r))
          (filter (\<lambda>r. status r = ''f'') (published (Some today) now (scenario today))))) []"
    by (simp add: unsupported_unfold supported_def at_or_today_def)
  then show ?thesis
    by (simp add: published_scenario_at candidates_scenario stored_def)
qed

lemma candidates_scenario_later:
  "unsupported_candidates (today + 1000) (scenario today) =
     [stored ''1.8'' (1, 8, 0) ''f'' 0 True (Some (today - 50)) (Some today) True,
      stored ''1.7'' (1, 7, 0) ''f'' 0 True (Some (today - 150)) (Some (today + 50)) False,
      stored ''1.6'' (1, 6, 0) ''f'' 0 True (Some (today - 250)) (Some (today - 50)) False,
      stored ''1.5'' (1, 5, 0) ''f'' 0 True (Some (today - 350)) (Some (today - 150)) False,
      stored ''1.4'' (1, 4, 0) ''f'' 0 True (Some (today - 450)) (Some (today + 50)) True]"
  by (simp add: scenario_def stored_def unsupported_candidates_def sorted_desc_def date_lte_def)

lemma unsupported_scenario_later:
  "unsupported None (today + 1000) (scenario today) =
     [stored ''1.7'' (1, 7, 0) ''f'' 0 True (Some (today - 150)) (Some (today + 50)) False,
      stored ''1.6'' (1, 6, 0) ''f'' 0 True (Some (today - 250)) (Some (today - 50)) False,
      stored ''1.5'' (1, 5, 0) ''f'' 0 True (Some (today - 350)) (Some (today - 150)) False,
      stored ''1.4'' (1, 4, 0) ''f'' 0 True (Some (today - 450)) (Some (today + 50)) True]"
proof -
  have "unsupported None (today + 1000) (scenario today) =
     unsupported_loop (unsupported_candidates (today + 1000) (scenario today))
       (set (map (\<lambda>r. (major r, minor r))
          (filter (\<lambda>r. status r = ''f'')
             (published None (today + 1000) (scenario today))))) []"
    by (simp add: unsupported_unfold supported_def at_or_today_def)
  then show ?thesis
    by (simp add: published_scenario_later candidates_scenario_later stored_def)
qed

text \<open>The series whose final release has ended, 100 days after its end of life.\<close>

lemma series_ended_evaluated:
  "published (Some 300) now series_ended =
     [stored ''2.0rc1'' (2, 0, 0) ''c'' 1 True (Some 50) None False]"
  "supported (Some 300) now series_ended = []"
  "unsupported (Some 300) now series_ended =
     [stored ''2.0'' (2, 0, 0) ''f'' 0 True (Some 100) (Some 200) False]"
proof -
  show p: "published (Some 300) now series_ended =
     [stored ''2.0rc1'' (2, 0, 0) ''c'' 1 True (Some 50) None False]"
    by (simp add: series_ended_def stored_def published_def sorted_desc_def date_lte_def
        at_or_today_def)
  show s: "supported (Some 300) now series_ended = []"
    by (simp add: supported_def p stored_def)
  have "unsupported_candidates 300 series_ended =
     [stored ''2.0'' (2, 0, 0) ''f'' 0 True (Some 100) (Some 200) False]"
    by (simp add: series_ended_def stored_def unsupported_candidates_def sorted_desc_def
        date_lte_def)
  then show "unsupported (Some 300) now series_ended =
     [stored ''2.0'' (2, 0, 0) ''f'' 0 True (Some 100) (Some 200) False]"
    by (simp add: unsupported_unfold at_or_today_def s stored_def)
qed
subsection \<open>Published releases\<close>

text \<open>
  C4.  \<open>published(at)\<close>, called with a date \<open>d\<close>, holds exactly the rows of the table with
  major at least 1, active, with a date that is set and not after \<open>d\<close>, and without an
  end-of-life date that is set and not after \<open>d\<close>, each as often as the table has it; the
  result is sorted in descending order of (major, minor, micro, status).  In particular
  no row of the result has a null date or a date after \<open>d\<close>, and none has \<open>d\<close> itself as
  its end-of-life date.  Called without a date, it returns what it returns for today.
\<close>

theorem published_exact:
  "mset (published (Some d) today table) =
     mset (filter (\<lambda>r. 1 \<le> major r \<and> is_active r
                     \<and> (\<exists>x. date r = Some x \<and> x \<le> d)
                     \<and> \<not> (\<exists>e. eol_date r = Some e \<and> e \<le> d)) table)
   \<and> sorted_wrt (\<lambda>a b. (major b, minor b, micro b, status b)
                        \<le> (major a, minor a, micro a, status a))
        (published (Some d) today table)
   \<and> (\<forall>r \<in> set (published (Some d) today table).
         (\<exists>x. date r = Some x \<and> x \<le> d) \<and> eol_date r \<noteq> Some d)
   \<and> published None today table = published (Some today) today table"
proof (intro conjI)
  show "mset (published (Some d) today table) =
     mset (filter (\<lambda>r. 1 \<le> major r \<and> is_active r
                     \<and> (\<exists>x. date r = Some x \<and> x \<le> d)
                     \<and> \<not> (\<exists>e. eol_date r = Some e \<and> e \<le> d)) table)"
    unfolding published_def at_or_today_def option.case Let_def mset_sorted_desc date_lte_iff
      filter_filter
    by (rule arg_cong[where f=mset], rule filter_cong) auto
  show "sorted_wrt (\<lambda>a b. (major b, minor b, micro b, status b)
                        \<le> (major a, minor a, micro a, status a))
        (published (Some d) today table)"
    unfolding published_def Let_def by (rule sorted_sorted_desc)
  show "\<forall>r \<in> set (published (Some d) today table).
         (\<exists>x. date r = Some x \<and> x \<le> d) \<and> eol_date r \<noteq> Some d"
    by (auto simp: published_def at_or_today_def Let_def set_sorted_desc date_lte_iff)
  show "published None today table = published (Some today) today table"
    by (simp add: published_def at_or_today_def)
qed

theorem published_exact_witness:
  "published (Some 1000) 2000 (scenario 1000) =
     [stored ''1.8.1'' (1, 8, 1) ''f'' 0 True (Some 1000) None True,
      stored ''1.7'' (1, 7, 0) ''f'' 0 True (Some 850) (Some 1050) False,
      stored ''1.4'' (1, 4, 0) ''f'' 0 True (Some 550) (Some 1050) True]
   \<and> published None 2000 (scenario 1000) =
     [stored ''1.8.1'' (1, 8, 1) ''f'' 0 True (Some 1000) None True]
   \<and> mset (published (Some 1000) 2000 (scenario 1000)) =
     mset (filter (\<lambda>r. 1 \<le> major r \<and> is_active r
                     \<and> (\<exists>x. date r = Some x \<and> x \<le> 1000)
                     \<and> \<not> (\<exists>e. eol_date r = Some e \<and> e \<le> 1000))
             (scenario 1000))
   \<and> sorted_wrt (\<lambda>a b. (major b, minor b, micro b, status b)
                        \<le> (major a, minor a, micro a, status a))
        (published (Some 1000) 2000 (scenario 1000))
   \<and> published None 2000 (scenario 1000) = published (Some 2000) 2000 (scenario 1000)"
proof -
  have rows: "published (Some 1000) 2000 (scenario 1000) =
     [stored ''1.8.1'' (1, 8, 1) ''f'' 0 True (Some 1000) None True,
      stored ''1.7'' (1, 7, 0) ''f'' 0 True (Some 850) (Some 1050) False,
      stored ''1.4'' (1, 4, 0) ''f'' 0 True (Some 550) (Some 1050) True]"
    using published_scenario_at[of 1000 2000] by simp
  have later: "published None 2000 (scenario 1000) =
     [stored ''1.8.1'' (1, 8, 1) ''f'' 0 True (Some 1000) None True]"
    using published_scenario_later[of 1000] by simp
  note t = published_exact[of 1000 2000 "scenario 1000"]
  from t have a: "mset (published (Some 1000) 2000 (scenario 1000)) =
     mset (filter (\<lambda>r. 1 \<le> major r \<and> is_active r
                     \<and> (\<exists>x. date r = Some x \<and> x \<le> 1000)
                     \<and> \<not> (\<exists>e. eol_date r = Some e \<and> e \<le> 1000))
             (scenario 1000))"
    by (rule conjunct1)
  from t have b: "sorted_wrt (\<lambda>a b. (major b, minor b, micro b, status b)
                        \<le> (major a, minor a, micro a, status a))
        (published (Some 1000) 2000 (scenario 1000))"
    by (elim conjE)
  from t have c: "published None 2000 (scenario 1000)
                  = published (Some 2000) 2000 (scenario 1000)"
    by (elim conjE)
  from rows later a b c show ?thesis by (intro conjI)
qed

subsection \<open>Unsupported releases\<close>

text \<open>
  C5.  \<open>supported(at)\<close>, called with a date \<open>d\<close>, holds exactly the final rows of the table
  with major at least 1, active, with a date that is set and not after \<open>d\<close>, and without
  an end-of-life date that is set and not after \<open>d\<close>.  Every row of \<open>unsupported(at)\<close>,
  called with \<open>d\<close>, is a row of the table that is final, has major at least 1 and an
  end-of-life date that is set and not after \<open>d\<close>; no such supported row of the table is
  of its (major, minor) series; and no final row of the table with major at least 1 and
  such an end-of-life date, in the same series, has a greater micro.  The result has at
  most one row for each series, is in descending order of (major, minor, micro), and has
  a row for every series of such a candidate that has no supported row.  Called without a
  date, both return what they return for today.
\<close>

theorem unsupported_spec:
  "mset (supported (Some d) today table) =
     mset (filter (\<lambda>s. status s = ''f'' \<and> 1 \<le> major s \<and> is_active s
                     \<and> (\<exists>x. date s = Some x \<and> x \<le> d)
                     \<and> \<not> (\<exists>e. eol_date s = Some e \<and> e \<le> d)) table)
   \<and> (\<forall>r \<in> set (unsupported (Some d) today table).
       r \<in> set table \<and> status r = ''f'' \<and> 1 \<le> major r
       \<and> (\<exists>e. eol_date r = Some e \<and> e \<le> d)
       \<and> (\<forall>s \<in> set table.
            status s = ''f'' \<and> 1 \<le> major s \<and> is_active s
            \<and> (\<exists>x. date s = Some x \<and> x \<le> d) \<and> \<not> (\<exists>e. eol_date s = Some e \<and> e \<le> d)
            \<longrightarrow> (major s, minor s) \<noteq> (major r, minor r))
       \<and> (\<forall>c \<in> set table.
            status c = ''f'' \<and> 1 \<le> major c \<and> (\<exists>e. eol_date c = Some e \<and> e \<le> d)
            \<and> major c = major r \<and> minor c = minor r \<longrightarrow> micro c \<le> micro r))
   \<and> distinct (map (\<lambda>r. (major r, minor r)) (unsupported (Some d) today table))
   \<and> sorted_wrt (\<lambda>a b. (major b, minor b, micro b) \<le> (major a, minor a, micro a))
        (unsupported (Some d) today table)
   \<and> (\<forall>c \<in> set table.
         status c = ''f'' \<and> 1 \<le> major c \<and> (\<exists>e. eol_date c = Some e \<and> e \<le> d)
         \<and> (\<forall>s \<in> set table.
              status s = ''f'' \<and> 1 \<le> major s \<and> is_active s
              \<and> (\<exists>x. date s = Some x \<and> x \<le> d) \<and> \<not> (\<exists>e. eol_date s = Some e \<and> e \<le> d)
              \<longrightarrow> (major s, minor s) \<noteq> (major c, minor c))
         \<longrightarrow> (\<exists>r \<in> set (unsupported (Some d) today table).
                major r = major c \<and> minor r = minor c))
   \<and> supported None today table = supported (Some today) today table
   \<and> unsupported None today table = unsupported (Some today) today table"
proof -
  let ?U = "unsupported (Some d) today table"
  let ?sup = "\<lambda>s. status s = ''f'' \<and> 1 \<le> major s \<and> is_active s
                     \<and> (\<exists>x. date s = Some x \<and> x \<le> d)
                     \<and> \<not> (\<exists>e. eol_date s = Some e \<and> e \<le> d)"
  have at: "at_or_today (Some d) today = d" by (simp add: at_or_today_def)
  note rows = unsupported_rows[of "Some d" today table, unfolded at]
  have mem: "\<And>s. s \<in> set (supported (Some d) today table) \<longleftrightarrow> s \<in> set table \<and> ?sup s"
    by (simp only: set_supported mem_Collect_eq)
  have 0: "mset (supported (Some d) today table) = mset (filter ?sup table)"
    unfolding supported_def published_def at_or_today_def option.case Let_def mset_filter
      mset_sorted_desc date_lte_iff filter_filter
    unfolding mset_filter[symmetric] filter_filter
    by (rule arg_cong[where f=mset], rule filter_cong) auto
  from rows have r1: "\<forall>r \<in> set ?U.
       r \<in> set table \<and> status r = ''f'' \<and> 1 \<le> major r
       \<and> (\<exists>e. eol_date r = Some e \<and> e \<le> d)
       \<and> (\<forall>s \<in> set (supported (Some d) today table). (major s, minor s) \<noteq> (major r, minor r))
       \<and> (\<forall>c \<in> set table.
            status c = ''f'' \<and> 1 \<le> major c \<and> (\<exists>e. eol_date c = Some e \<and> e \<le> d)
            \<and> major c = major r \<and> minor c = minor r \<longrightarrow> micro c \<le> micro r)"
    by (rule conjunct1)
  have 1: "\<forall>r \<in> set ?U.
       r \<in> set table \<and> status r = ''f'' \<and> 1 \<le> major r
       \<and> (\<exists>e. eol_date r = Some e \<and> e \<le> d)
       \<and> (\<forall>s \<in> set table. ?sup s \<longrightarrow> (major s, minor s) \<noteq> (major r, minor r))
       \<and> (\<forall>c \<in> set table.
            status c = ''f'' \<and> 1 \<le> major c \<and> (\<exists>e. eol_date c = Some e \<and> e \<le> d)
            \<and> major c = major r \<and> minor c = minor r \<longrightarrow> micro c \<le> micro r)"
  proof
    fix r assume "r \<in> set ?U"
    with r1 have r: "r \<in> set table \<and> status r = ''f'' \<and> 1 \<le> major r
       \<and> (\<exists>e. eol_date r = Some e \<and> e \<le> d)
       \<and> (\<forall>s \<in> set (supported (Some d) today table). (major s, minor s) \<noteq> (major r, minor r))
       \<and> (\<forall>c \<in> set table.
            status c = ''f'' \<and> 1 \<le> major c \<and> (\<exists>e. eol_date c = Some e \<and> e \<le> d)
            \<and> major c = major r \<and> minor c = minor r \<longrightarrow> micro c \<le> micro r)"
      by (rule bspec)
    then have ns: "\<forall>s \<in> set (supported (Some d) today table).
                     (major s, minor s) \<noteq> (major r, minor r)"
      by (elim conjE)
    have "\<forall>s \<in> set table. ?sup s \<longrightarrow> (major s, minor s) \<noteq> (major r, minor r)"
    proof (intro ballI impI)
      fix s assume "s \<in> set table" and "?sup s"
      then have "s \<in> set table \<and> ?sup s" by (rule conjI)
      then have "s \<in> set (supported (Some d) today table)" by (rule mem[THEN iffD2])
      with ns show "(major s, minor s) \<noteq> (major r, minor r)" by (rule bspec)
    qed
    moreover from r have "r \<in> set table" by (elim conjE)
    moreover from r have "status r = ''f''" by (elim conjE)
    moreover from r have "1 \<le> major r" by (elim conjE)
    moreover from r have "\<exists>e. eol_date r = Some e \<and> e \<le> d" by (elim conjE)
    moreover from r have "\<forall>c \<in> set table.
            status c = ''f'' \<and> 1 \<le> major c \<and> (\<exists>e. eol_date c = Some e \<and> e \<le> d)
            \<and> major c = major r \<and> minor c = minor r \<longrightarrow> micro c \<le> micro r"
      by (elim conjE)
    ultimately show "r \<in> set table \<and> status r = ''f'' \<and> 1 \<le> major r
       \<and> (\<exists>e. eol_date r = Some e \<and> e \<le> d)
       \<and> (\<forall>s \<in> set table. ?sup s \<longrightarrow> (major s, minor s) \<noteq> (major r, minor r))
       \<and> (\<forall>c \<in> set table.
            status c = ''f'' \<and> 1 \<le> major c \<and> (\<exists>e. eol_date c = Some e \<and> e \<le> d)
            \<and> major c = major r \<and> minor c = minor r \<longrightarrow> micro c \<le> micro r)"
      by (intro conjI)
  qed
  from rows have 2: "distinct (map (\<lambda>r. (major r, minor r)) ?U)" by (elim conjE)
  from rows have 3: "sorted_wrt (\<lambda>a b. (major b, minor b, micro b) \<le> (major a, minor a, micro a)) ?U"
    by (elim conjE)
  from rows have r4: "\<forall>c \<in> set table.
         status c = ''f'' \<and> 1 \<le> major c \<and> (\<exists>e. eol_date c = Some e \<and> e \<le> d)
         \<and> (\<forall>s \<in> set (supported (Some d) today table). (major s, minor s) \<noteq> (major c, minor c))
         \<longrightarrow> (\<exists>r \<in> set ?U. major r = major c \<and> minor r = minor c)"
    by (elim conjE)
  have 4: "\<forall>c \<in> set table.
         status c = ''f'' \<and> 1 \<le> major c \<and> (\<exists>e. eol_date c = Some e \<and> e \<le> d)
         \<and> (\<forall>s \<in> set table. ?sup s \<longrightarrow> (major s, minor s) \<noteq> (major c, minor c))
         \<longrightarrow> (\<exists>r \<in> set ?U. major r = major c \<and> minor r = minor c)"
  proof (intro ballI impI)
    fix c assume c: "c \<in> set table"
      and h: "status c = ''f'' \<and> 1 \<le> major c \<and> (\<exists>e. eol_date c = Some e \<and> e \<le> d)
         \<and> (\<forall>s \<in> set table. ?sup s \<longrightarrow> (major s, minor s) \<noteq> (major c, minor c))"
    from h have ns: "\<forall>s \<in> set table. ?sup s \<longrightarrow> (major s, minor s) \<noteq> (major c, minor c)"
      by (elim conjE)
    have "\<forall>s \<in> set (supported (Some d) today table). (major s, minor s) \<noteq> (major c, minor c)"
    proof
      fix s assume "s \<in> set (supported (Some d) today table)"
      then have "s \<in> set table \<and> ?sup s" by (rule mem[THEN iffD1])
      then have s: "s \<in> set table" and "?sup s" by (rule conjunct1, rule conjunct2)
      from bspec[OF ns s] this(2) show "(major s, minor s) \<noteq> (major c, minor c)" by (rule mp)
    qed
    moreover from h have "status c = ''f''" by (elim conjE)
    moreover from h have "1 \<le> major c" by (elim conjE)
    moreover from h have "\<exists>e. eol_date c = Some e \<and> e \<le> d" by (elim conjE)
    ultimately have "status c = ''f'' \<and> 1 \<le> major c \<and> (\<exists>e. eol_date c = Some e \<and> e \<le> d)
         \<and> (\<forall>s \<in> set (supported (Some d) today table). (major s, minor s) \<noteq> (major c, minor c))"
      by (intro conjI)
    with bspec[OF r4 c] show "\<exists>r \<in> set ?U. major r = major c \<and> minor r = minor c"
      by (rule mp)
  qed
  have 5: "supported None today table = supported (Some today) today table"
    by (simp add: supported_def published_def at_or_today_def)
  have 6: "unsupported None today table = unsupported (Some today) today table"
    by (simp add: unsupported_def supported_def published_def at_or_today_def)
  from 0 1 2 3 4 5 6 show ?thesis by (intro conjI)
qed

theorem unsupported_spec_witness:
  "unsupported (Some 1000) 2000 (scenario 1000) =
     [stored ''1.6'' (1, 6, 0) ''f'' 0 True (Some 750) (Some 950) False,
      stored ''1.5'' (1, 5, 0) ''f'' 0 True (Some 650) (Some 850) False]
   \<and> unsupported None 2000 (scenario 1000) =
     [stored ''1.7'' (1, 7, 0) ''f'' 0 True (Some 850) (Some 1050) False,
      stored ''1.6'' (1, 6, 0) ''f'' 0 True (Some 750) (Some 950) False,
      stored ''1.5'' (1, 5, 0) ''f'' 0 True (Some 650) (Some 850) False,
      stored ''1.4'' (1, 4, 0) ''f'' 0 True (Some 550) (Some 1050) True]
   \<and> published (Some 300) 2000 series_ended =
     [stored ''2.0rc1'' (2, 0, 0) ''c'' 1 True (Some 50) None False]
   \<and> supported (Some 300) 2000 series_ended = []
   \<and> unsupported (Some 300) 2000 series_ended =
     [stored ''2.0'' (2, 0, 0) ''f'' 0 True (Some 100) (Some 200) False]
   \<and> mset (supported (Some 300) 2000 series_ended) =
     mset (filter (\<lambda>s. status s = ''f'' \<and> 1 \<le> major s \<and> is_active s
                     \<and> (\<exists>x. date s = Some x \<and> x \<le> 300)
                     \<and> \<not> (\<exists>e. eol_date s = Some e \<and> e \<le> 300)) series_ended)
   \<and> distinct (map (\<lambda>r. (major r, minor r)) (unsupported (Some 1000) 2000 (scenario 1000)))
   \<and> sorted_wrt (\<lambda>a b. (major b, minor b, micro b) \<le> (major a, minor a, micro a))
        (unsupported (Some 1000) 2000 (scenario 1000))
   \<and> unsupported None 2000 (scenario 1000) = unsupported (Some 2000) 2000 (scenario 1000)"
proof -
  have rows: "unsupported (Some 1000) 2000 (scenario 1000) =
     [stored ''1.6'' (1, 6, 0) ''f'' 0 True (Some 750) (Some 950) False,
      stored ''1.5'' (1, 5, 0) ''f'' 0 True (Some 650) (Some 850) False]"
    using unsupported_scenario_at[of 1000 2000] by simp
  have later: "unsupported None 2000 (scenario 1000) =
     [stored ''1.7'' (1, 7, 0) ''f'' 0 True (Some 850) (Some 1050) False,
      stored ''1.6'' (1, 6, 0) ''f'' 0 True (Some 750) (Some 950) False,
      stored ''1.5'' (1, 5, 0) ''f'' 0 True (Some 650) (Some 850) False,
      stored ''1.4'' (1, 4, 0) ''f'' 0 True (Some 550) (Some 1050) True]"
    using unsupported_scenario_later[of 1000] by simp
  note e = series_ended_evaluated
  note t = unsupported_spec[of 1000 2000 "scenario 1000"]
  from t have a: "distinct (map (\<lambda>r. (major r, minor r))
                     (unsupported (Some 1000) 2000 (scenario 1000)))"
    by (elim conjE)
  from t have b: "sorted_wrt (\<lambda>a b. (major b, minor b, micro b) \<le> (major a, minor a, micro a))
        (unsupported (Some 1000) 2000 (scenario 1000))"
    by (elim conjE)
  from t have c: "unsupported None 2000 (scenario 1000)
                  = unsupported (Some 2000) 2000 (scenario 1000)"
    by (elim conjE)
  from unsupported_spec[of 300 2000 series_ended]
  have s: "mset (supported (Some 300) 2000 series_ended) =
     mset (filter (\<lambda>s. status s = ''f'' \<and> 1 \<le> major s \<and> is_active s
                     \<and> (\<exists>x. date s = Some x \<and> x \<le> 300)
                     \<and> \<not> (\<exists>e. eol_date s = Some e \<and> e \<le> 300)) series_ended)"
    by (rule conjunct1)
  from rows later e a b c s show ?thesis by (intro conjI)
qed

subsection \<open>The scenario of the tests\<close>

text \<open>
  C6.  With exactly the ten releases of the test scenario in the table (1.4, 1.5, 1.6 and
  1.7 with the dates and end-of-life dates the claim gives; 1.8a1, 1.8b1, 1.8 and 1.8.1
  active and dated, with the dates and end-of-life dates that the repository's test data
  gives them; 1.9 active without a date; 1.10 inactive), \<open>published()\<close> returns 1.8.1,
  1.7, 1.4 in this order and \<open>unsupported()\<close> returns 1.6, 1.5 in this order, whatever
  day today is.
\<close>

theorem scenario_published_unsupported:
  "map version (published None today (scenario today)) = [''1.8.1'', ''1.7'', ''1.4'']
   \<and> map version (unsupported None today (scenario today)) = [''1.6'', ''1.5'']"
  by (simp add: published_scenario unsupported_scenario stored_def)

theorem scenario_published_unsupported_witness:
  "map version (published None 20000 (scenario 20000)) = [''1.8.1'', ''1.7'', ''1.4'']
   \<and> map version (unsupported None 20000 (scenario 20000)) = [''1.6'', ''1.5'']"
  by (rule scenario_published_unsupported[of 20000])

section \<open>Properties of saving\<close>

lemma length5: "length xs = 5 \<Longrightarrow> xs = [xs ! 0, xs ! 1, xs ! 2, xs ! 3, xs ! 4]"
  by (auto simp: length_Suc_conv eval_nat_numeral)

lemma version_tuple_fields: "model_fields (snd (version_tuple self)) = model_fields self"
  by (simp add: version_tuple_def split: option.splits sum.splits)

lemma RELEASE_STATUS_REVERSE_final:
  "RELEASE_STATUS_REVERSE st = Some code \<Longrightarrow> (code = ''f'') = (st = ''final'')"
  by (auto simp: RELEASE_STATUS_REVERSE_def split: if_splits)

lemma set_db_save:
  "set (db_save row table) = insert row {r \<in> set table. version r \<noteq> version row}"
  by (auto simp: db_save_def image_iff)

lemma set_db_update_eol:
  "set (db_update_eol cond d table) = (\<lambda>r. if cond r then r\<lparr>eol_date := d\<rparr> else r) ` set table"
  by (simp add: db_update_eol_def)

lemma save_Inr:
  assumes "save self table = Inr (self', table')"
  shows "\<exists>vt ma mi mc st code it.
           fst (version_tuple self) = Inr vt \<and> vt = [TInt ma, TInt mi, TInt mc, TStr st, TInt it]
         \<and> RELEASE_STATUS_REVERSE st = Some code
         \<and> model_fields self' = (model_fields self)\<lparr>major := ma, minor := mi, micro := mc,
                                                   status := code, iteration := it\<rparr>
         \<and> table' =
             (if code = ''f'' \<and> 0 < mc \<and> is_active (model_fields self)
              then db_update_eol
                     (\<lambda>r. major r = ma \<and> minor r = mi \<and> micro r = mc - 1 \<and> status r = ''f'')
                     (date (model_fields self)) (db_save (model_fields self') table)
              else db_save (model_fields self') table)"
proof -
  obtain res self1 where vt0: "version_tuple self = (res, self1)" by (cases "version_tuple self")
  with assms obtain vt where res: "res = Inr vt"
    by (cases res) (simp_all add: save_def)
  have f1: "model_fields self1 = model_fields self"
    using version_tuple_fields[of self] vt0 by simp
  from assms vt0 res have len: "length vt = 5"
    by (simp add: save_def split: if_splits)
  from assms vt0 res len obtain code where
    code: "(case vt ! 3 of TInt n \<Rightarrow> None | TStr s \<Rightarrow> RELEASE_STATUS_REVERSE s) = Some code"
    by (cases "case vt ! 3 of TInt n \<Rightarrow> None | TStr s \<Rightarrow> RELEASE_STATUS_REVERSE s")
       (simp_all add: save_def)
  then obtain st where st: "vt ! 3 = TStr st" "RELEASE_STATUS_REVERSE st = Some code"
    by (cases "vt ! 3") simp_all
  from assms vt0 res len code obtain ma mi mc it where
    ints: "vt ! 0 = TInt ma" "vt ! 1 = TInt mi" "vt ! 2 = TInt mc" "vt ! 4 = TInt it"
    by (cases "vt ! 0"; cases "vt ! 1"; cases "vt ! 2"; cases "vt ! 4") (simp_all add: save_def)
  from length5[OF len] ints st have vt: "vt = [TInt ma, TInt mi, TInt mc, TStr st, TInt it]"
    by simp
  define row where "row = (model_fields self1)\<lparr>major := ma, minor := mi, micro := mc,
                                                   status := code, iteration := it\<rparr>"
  define tbl where "tbl =
     (if status row = ''f'' \<and> 0 < micro row \<and> is_active row
      then db_update_eol
             (\<lambda>r. major r = major row \<and> minor r = minor row \<and>
                   micro r = micro row - 1 \<and> status r = ''f'')
             (date row) (db_save row table)
      else db_save row table)"
  have "save self table = Inr (self1\<lparr>model_fields := row\<rparr>, tbl)"
    unfolding save_def vt0 res prod.case sum.case code option.case ints tok.case Let_def
      row_def[symmetric] tbl_def[symmetric]
    using len by simp
  with assms have self': "self' = self1\<lparr>model_fields := row\<rparr>" and table': "table' = tbl"
    by simp_all
  have r1: "model_fields self' = (model_fields self)\<lparr>major := ma, minor := mi, micro := mc,
                                                   status := code, iteration := it\<rparr>"
    by (simp add: self' row_def f1)
  have r2: "table' =
             (if code = ''f'' \<and> 0 < mc \<and> is_active (model_fields self)
              then db_update_eol
                     (\<lambda>r. major r = ma \<and> minor r = mi \<and> micro r = mc - 1 \<and> status r = ''f'')
                     (date (model_fields self)) (db_save (model_fields self') table)
              else db_save (model_fields self') table)"
    by (simp add: table' tbl_def self' row_def f1)
  from vt0 res have r0: "fst (version_tuple self) = Inr vt" by simp
  show ?thesis
    by (intro exI conjI) (rule r0, rule vt, rule st(2), rule r1, rule r2)
qed

lemma save_success:
  assumes "fst (version_tuple self) = Inr [TInt ma, TInt mi, TInt mc, TStr st, TInt it]"
    and "RELEASE_STATUS_REVERSE st = Some code"
  shows "\<exists>self' table'. save self table = Inr (self', table')
           \<and> model_fields self' = (model_fields self)\<lparr>major := ma, minor := mi, micro := mc,
                                                   status := code, iteration := it\<rparr>"
proof -
  obtain res self1 where vt0: "version_tuple self = (res, self1)"
    by (cases "version_tuple self")
  with assms(1) have res: "res = Inr [TInt ma, TInt mi, TInt mc, TStr st, TInt it]" by simp
  have f1: "model_fields self1 = model_fields self"
    using version_tuple_fields[of self] vt0 by simp
  show ?thesis
    by (simp add: save_def vt0 res assms(2) Let_def f1)
qed

lemma save_stores:
  assumes "save self table = Inr (self', table')"
  shows "set table' =
           insert (model_fields self')
             ((\<lambda>r. if status (model_fields self') = ''f'' \<and> 0 < micro (model_fields self')
                        \<and> is_active (model_fields self')
                        \<and> major r = major (model_fields self') \<and> minor r = minor (model_fields self')
                        \<and> micro r + 1 = micro (model_fields self') \<and> status r = ''f''
                     then r\<lparr>eol_date := date (model_fields self')\<rparr> else r)
              ` {r \<in> set table. version r \<noteq> version (model_fields self')})"
proof -
  from save_Inr[OF assms] obtain vt ma mi mc st code it where
    new: "model_fields self' = (model_fields self)\<lparr>major := ma, minor := mi, micro := mc,
                                                   status := code, iteration := it\<rparr>"
    and tbl: "table' =
             (if code = ''f'' \<and> 0 < mc \<and> is_active (model_fields self)
              then db_update_eol
                     (\<lambda>r. major r = ma \<and> minor r = mi \<and> micro r = mc - 1 \<and> status r = ''f'')
                     (date (model_fields self)) (db_save (model_fields self') table)
              else db_save (model_fields self') table)"
    by blast
  define new where "new = model_fields self'"
  have sel: "major new = ma" "minor new = mi" "micro new = mc" "status new = code"
    "is_active new = is_active (model_fields self)" "date new = date (model_fields self)"
    by (simp_all add: new_def \<open>model_fields self' = _\<close>)
  show ?thesis
  proof (cases "code = ''f'' \<and> 0 < mc \<and> is_active (model_fields self)")
    case False
    have t: "table' = db_save new table" unfolding tbl new_def by (simp only: if_not_P[OF False])
    from False
    have feq: "(\<lambda>r. if status new = ''f'' \<and> 0 < micro new \<and> is_active new
                        \<and> major r = major new \<and> minor r = minor new
                        \<and> micro r + 1 = micro new \<and> status r = ''f''
                     then r\<lparr>eol_date := date new\<rparr> else r) = (\<lambda>r. r)"
      by (auto simp: sel)
    show ?thesis
      unfolding new_def[symmetric] by (simp only: feq image_ident set_db_save t)
  next
    case True
    then have pos: "0 < mc" by simp
    have cond: "(\<lambda>r. major r = ma \<and> minor r = mi \<and> micro r = mc - 1 \<and> status r = ''f'')
       = (\<lambda>r. status new = ''f'' \<and> 0 < micro new \<and> is_active new
                        \<and> major r = major new \<and> minor r = minor new
                        \<and> micro r + 1 = micro new \<and> status r = ''f'')"
      using True by (auto simp: sel fun_eq_iff)
    from True have "table' = db_update_eol
                     (\<lambda>r. major r = ma \<and> minor r = mi \<and> micro r = mc - 1 \<and> status r = ''f'')
                     (date new) (db_save new table)"
      by (simp add: tbl new_def new)
    then have "set table' = (\<lambda>r. if status new = ''f'' \<and> 0 < micro new \<and> is_active new
                        \<and> major r = major new \<and> minor r = minor new
                        \<and> micro r + 1 = micro new \<and> status r = ''f''
                     then r\<lparr>eol_date := date new\<rparr> else r)
                  ` insert new {r \<in> set table. version r \<noteq> version new}"
      by (simp only: set_db_update_eol set_db_save cond)
    moreover have "\<not> (micro new + 1 = micro new)" by simp
    ultimately show ?thesis
      unfolding new_def[symmetric] by (simp only: image_insert if_False simp_thms)
  qed
qed

text \<open>
  C3.  Let \<open>version_tuple\<close> of the instance be a tuple of three integers, a status name
  and an integer.  Then \<open>save\<close> returns; the saved row has the version, the active flag
  and the date of the instance and the components of the tuple, with stored status \<open>f\<close>
  exactly for the status name final; and the table consists of the saved row and of the
  other rows of the table before the call, where a row counts as other when its version
  differs.  If the parsed status is final, the micro is above 0 and the instance is
  active, each other row with the same major and minor, micro one less and stored status
  \<open>f\<close> has got the date of the saved release as its end-of-life date, and every other
  row is as it was.  If the instance is inactive, or not final, or has micro 0, every
  other row is as it was.
\<close>

theorem save_eol_cascade:
  assumes "fst (version_tuple self) = Inr [TInt ma, TInt mi, TInt mc, TStr st, TInt it]"
    and "st \<in> set status_names"
  shows "\<exists>self' table'.
         save self table = Inr (self', table')
       \<and> version (model_fields self') = version (model_fields self)
       \<and> is_active (model_fields self') = is_active (model_fields self)
       \<and> date (model_fields self') = date (model_fields self)
       \<and> major (model_fields self') = ma \<and> minor (model_fields self') = mi
       \<and> micro (model_fields self') = mc \<and> iteration (model_fields self') = it
       \<and> (status (model_fields self') = ''f'') = (st = ''final'')
       \<and> set table' =
           insert (model_fields self')
             ((\<lambda>r. if st = ''final'' \<and> 0 < mc \<and> is_active (model_fields self)
                        \<and> major r = ma \<and> minor r = mi \<and> micro r + 1 = mc \<and> status r = ''f''
                     then r\<lparr>eol_date := date (model_fields self)\<rparr> else r)
              ` {r \<in> set table. version r \<noteq> version (model_fields self)})"
proof -
  from assms(2) obtain code where code: "RELEASE_STATUS_REVERSE st = Some code"
    by (auto simp: status_names_def RELEASE_STATUS_REVERSE_def)
  from save_success[OF assms(1) code, of table] obtain self' table' where
    sv: "save self table = Inr (self', table')"
    and new: "model_fields self' = (model_fields self)\<lparr>major := ma, minor := mi, micro := mc,
                                                   status := code, iteration := it\<rparr>"
    by blast
  note fin = RELEASE_STATUS_REVERSE_final[OF code]
  have sel: "version (model_fields self') = version (model_fields self)"
    "is_active (model_fields self') = is_active (model_fields self)"
    "date (model_fields self') = date (model_fields self)"
    "major (model_fields self') = ma" "minor (model_fields self') = mi"
    "micro (model_fields self') = mc" "iteration (model_fields self') = it"
    "(status (model_fields self') = ''f'') = (st = ''final'')"
    by (simp_all add: new fin)
  have "set table' =
           insert (model_fields self')
             ((\<lambda>r. if st = ''final'' \<and> 0 < mc \<and> is_active (model_fields self)
                        \<and> major r = ma \<and> minor r = mi \<and> micro r + 1 = mc \<and> status r = ''f''
                     then r\<lparr>eol_date := date (model_fields self)\<rparr> else r)
              ` {r \<in> set table. version r \<noteq> version (model_fields self)})"
    using save_stores[OF sv] by (simp only: sel)
  with sv sel show ?thesis
    by (intro exI[of _ self'] exI[of _ table'] conjI)
qed

theorem save_eol_cascade_witness:
  "fst (version_tuple (new_release (Release ''5.2.2'' True (Some 20) None True)))
     = Inr [TInt 5, TInt 2, TInt 2, TStr ''final'', TInt 0]
   \<and> ''final'' \<in> set status_names
   \<and> save (new_release (Release ''5.2.2'' True (Some 20) None True))
        [stored ''5.2.1'' (5, 2, 1) ''f'' 0 True (Some 10) None True,
         stored ''5.1.9'' (5, 1, 9) ''f'' 0 True (Some 10) None False]
     = Inr (\<lparr>model_fields = stored ''5.2.2'' (5, 2, 2) ''f'' 0 True (Some 20) None True,
             cached_version_tuple = Some [TInt 5, TInt 2, TInt 2, TStr ''final'', TInt 0]\<rparr>,
            [stored ''5.2.1'' (5, 2, 1) ''f'' 0 True (Some 10) (Some 20) True,
             stored ''5.1.9'' (5, 1, 9) ''f'' 0 True (Some 10) None False,
             stored ''5.2.2'' (5, 2, 2) ''f'' 0 True (Some 20) None True])
   \<and> date (stored ''5.2.2'' (5, 2, 2) ''f'' 0 True (Some 20) None True) = Some 20"
proof -
  have v: "fst (version_tuple (new_release (Release ''5.2.2'' True (Some 20) None True)))
             = Inr [TInt 5, TInt 2, TInt 2, TStr ''final'', TInt 0]"
    by (simp add: version_tuple_def new_release_def Release_def parse_defs)
  have n: "''final'' \<in> set status_names" by (simp add: status_names_def)
  have h: "save (new_release (Release ''5.2.2'' True (Some 20) None True))
        [stored ''5.2.1'' (5, 2, 1) ''f'' 0 True (Some 10) None True,
         stored ''5.1.9'' (5, 1, 9) ''f'' 0 True (Some 10) None False]
     = Inr (\<lparr>model_fields = stored ''5.2.2'' (5, 2, 2) ''f'' 0 True (Some 20) None True,
             cached_version_tuple = Some [TInt 5, TInt 2, TInt 2, TStr ''final'', TInt 0]\<rparr>,
            [stored ''5.2.1'' (5, 2, 1) ''f'' 0 True (Some 10) (Some 20) True,
             stored ''5.1.9'' (5, 1, 9) ''f'' 0 True (Some 10) None False,
             stored ''5.2.2'' (5, 2, 2) ''f'' 0 True (Some 20) None True])"
    by (simp add: save_def version_tuple_def new_release_def Release_def stored_def parse_defs
        RELEASE_STATUS_REVERSE_def db_save_def db_update_eol_def Let_def)
  from save_eol_cascade[OF v n,
      of "[stored ''5.2.1'' (5, 2, 1) ''f'' 0 True (Some 10) None True,
           stored ''5.1.9'' (5, 1, 9) ''f'' 0 True (Some 10) None False]"] h
  have "date (stored ''5.2.2'' (5, 2, 2) ''f'' 0 True (Some 20) None True) = Some 20"
    by (auto simp: new_release_def Release_def)
  with v n h show ?thesis by (intro conjI)
qed

lemma version_tuple_fresh:
  assumes "\<forall>t. cached_version_tuple self = Some t \<longrightarrow>
              parse_version (version (model_fields self)) = Inr t"
  shows "fst (version_tuple self) = parse_version (version (model_fields self))"
proof (cases "cached_version_tuple self")
  case None
  then show ?thesis
    by (cases "parse_version (version (model_fields self))") (simp_all add: version_tuple_def)
next
  case (Some t)
  with assms have "parse_version (version (model_fields self)) = Inr t" by simp
  with Some show ?thesis by (simp add: version_tuple_def)
qed

text \<open>
  C7, as amended.  When \<open>save\<close> returns, the saved row is in the table, it has the
  version string of the instance, and its stored decomposition is the one given by the
  value of \<open>version_tuple\<close>.  That value is cached on the instance when it is first
  read.  If nothing is cached when \<open>save\<close> is called, or what is cached is the tuple
  parsed from the present version string, then the stored decomposition is the one parsed
  from the version string of the saved row.
\<close>

theorem save_decomposition:
  assumes "save self table = Inr (self', table')"
  shows "model_fields self' \<in> set table'
       \<and> version (model_fields self') = version (model_fields self)
       \<and> (\<exists>vt. fst (version_tuple self) = Inr vt \<and> is_decomposition (model_fields self') vt)
       \<and> ((\<forall>t. cached_version_tuple self = Some t \<longrightarrow>
                  parse_version (version (model_fields self)) = Inr t)
          \<longrightarrow> (\<exists>vt. parse_version (version (model_fields self')) = Inr vt
                    \<and> is_decomposition (model_fields self') vt))"
proof -
  from save_Inr[OF assms] obtain vt ma mi mc st code it where
    vt: "fst (version_tuple self) = Inr vt" "vt = [TInt ma, TInt mi, TInt mc, TStr st, TInt it]"
    and code: "RELEASE_STATUS_REVERSE st = Some code"
    and new: "model_fields self' = (model_fields self)\<lparr>major := ma, minor := mi, micro := mc,
                                                   status := code, iteration := it\<rparr>"
    by blast
  have a: "model_fields self' \<in> set table'"
    by (subst save_stores[OF assms]) (rule insertI1)
  have b: "version (model_fields self') = version (model_fields self)"
    by (simp add: new)
  have dec: "is_decomposition (model_fields self') vt"
    by (simp add: is_decomposition_def vt(2) new code)
  from vt(1) dec
  have c: "\<exists>vt. fst (version_tuple self) = Inr vt \<and> is_decomposition (model_fields self') vt"
    by blast
  have d: "(\<forall>t. cached_version_tuple self = Some t \<longrightarrow>
                  parse_version (version (model_fields self)) = Inr t)
          \<longrightarrow> (\<exists>vt. parse_version (version (model_fields self')) = Inr vt
                    \<and> is_decomposition (model_fields self') vt)"
  proof
    assume "\<forall>t. cached_version_tuple self = Some t \<longrightarrow>
                  parse_version (version (model_fields self)) = Inr t"
    from version_tuple_fresh[OF this] vt(1)
    have "parse_version (version (model_fields self')) = Inr vt" by (simp add: b)
    with dec show "\<exists>vt. parse_version (version (model_fields self')) = Inr vt
                    \<and> is_decomposition (model_fields self') vt"
      by blast
  qed
  from a b c d show ?thesis by (intro conjI)
qed

text \<open>
  The claim as stated fails: read \<open>version_tuple\<close> on an instance with version 5.2,
  assign 5.2.1 to \<open>version\<close>, save.  The row stored under 5.2.1 has micro 0, from the
  cached tuple, and the tuple parsed from 5.2.1 has micro 1.
\<close>

theorem save_decomposition_counterexample:
  "save (set_version ''5.2.1''
           (snd (version_tuple (new_release (Release ''5.2'' True (Some 20) None True))))) []
     = Inr (\<lparr>model_fields = stored ''5.2.1'' (5, 2, 0) ''f'' 0 True (Some 20) None True,
             cached_version_tuple = Some [TInt 5, TInt 2, TInt 0, TStr ''final'', TInt 0]\<rparr>,
            [stored ''5.2.1'' (5, 2, 0) ''f'' 0 True (Some 20) None True])
   \<and> parse_version (version (stored ''5.2.1'' (5, 2, 0) ''f'' 0 True (Some 20) None True))
       = Inr [TInt 5, TInt 2, TInt 1, TStr ''final'', TInt 0]
   \<and> \<not> is_decomposition (stored ''5.2.1'' (5, 2, 0) ''f'' 0 True (Some 20) None True)
           [TInt 5, TInt 2, TInt 1, TStr ''final'', TInt 0]"
  by (simp add: save_def version_tuple_def new_release_def set_version_def Release_def
      stored_def parse_defs RELEASE_STATUS_REVERSE_def db_save_def db_update_eol_def Let_def
      is_decomposition_def)

theorem save_decomposition_witness:
  "save (set_version ''5.2.1'' (new_release (Release ''5.2'' True (Some 20) None True))) []
     = Inr (\<lparr>model_fields = stored ''5.2.1'' (5, 2, 1) ''f'' 0 True (Some 20) None True,
             cached_version_tuple = Some [TInt 5, TInt 2, TInt 1, TStr ''final'', TInt 0]\<rparr>,
            [stored ''5.2.1'' (5, 2, 1) ''f'' 0 True (Some 20) None True])
   \<and> cached_version_tuple
         (set_version ''5.2.1'' (new_release (Release ''5.2'' True (Some 20) None True))) = None
   \<and> parse_version ''5.2.1'' = Inr [TInt 5, TInt 2, TInt 1, TStr ''final'', TInt 0]
   \<and> is_decomposition (stored ''5.2.1'' (5, 2, 1) ''f'' 0 True (Some 20) None True)
         [TInt 5, TInt 2, TInt 1, TStr ''final'', TInt 0]"
proof -
  have h: "save (set_version ''5.2.1'' (new_release (Release ''5.2'' True (Some 20) None True))) []
     = Inr (\<lparr>model_fields = stored ''5.2.1'' (5, 2, 1) ''f'' 0 True (Some 20) None True,
             cached_version_tuple = Some [TInt 5, TInt 2, TInt 1, TStr ''final'', TInt 0]\<rparr>,
            [stored ''5.2.1'' (5, 2, 1) ''f'' 0 True (Some 20) None True])"
    by (simp add: save_def version_tuple_def new_release_def set_version_def Release_def
        stored_def parse_defs RELEASE_STATUS_REVERSE_def db_save_def db_update_eol_def Let_def)
  have c: "cached_version_tuple
         (set_version ''5.2.1'' (new_release (Release ''5.2'' True (Some 20) None True))) = None"
    by (simp add: set_version_def new_release_def)
  have p: "parse_version ''5.2.1'' = Inr [TInt 5, TInt 2, TInt 1, TStr ''final'', TInt 0]"
    by (simp add: parse_defs)
  from save_decomposition[OF h] c p
  have "is_decomposition (stored ''5.2.1'' (5, 2, 1) ''f'' 0 True (Some 20) None True)
         [TInt 5, TInt 2, TInt 1, TStr ''final'', TInt 0]"
    by (simp add: stored_def)
  with h c p show ?thesis by (intro conjI)
qed

section \<open>Properties of the security advisory aggregator\<close>

subsection \<open>Field cleaning of a security issue\<close>

text \<open>
  C9.  Field cleaning of a security issue raises a validation error exactly when the
  category is the "Other or Unknown" sentinel and \<open>other_type\<close> is empty, or the category
  is not the sentinel and \<open>other_type\<close> is non-empty; exactly in the other cases it
  returns the record it was given, with every field as it was.  It has no third outcome.
\<close>

theorem clean_fields_iff:
  "((\<exists>msg. clean_fields self = Inl (ValidationError msg)) =
      ((cve_type self = CVE_TYPE_OTHER \<and> other_type self = []) \<or>
       (cve_type self \<noteq> CVE_TYPE_OTHER \<and> other_type self \<noteq> [])))
   \<and> ((clean_fields self = Inr self) =
      (\<not> ((cve_type self = CVE_TYPE_OTHER \<and> other_type self = []) \<or>
           (cve_type self \<noteq> CVE_TYPE_OTHER \<and> other_type self \<noteq> []))))
   \<and> ((\<exists>msg. clean_fields self = Inl (ValidationError msg)) \<or> clean_fields self = Inr self)"
  by (auto simp: clean_fields_def)

theorem clean_fields_iff_witness:
  "clean_fields issue_example = Inr issue_example
   \<and> (\<exists>msg. clean_fields (issue_example\<lparr>other_type := []\<rparr>) = Inl (ValidationError msg))
   \<and> (\<exists>msg. clean_fields (issue_example\<lparr>cve_type := ''SQL Injection''\<rparr>)
              = Inl (ValidationError msg))
   \<and> clean_fields (issue_example\<lparr>cve_type := ''SQL Injection'', other_type := []\<rparr>)
       = Inr (issue_example\<lparr>cve_type := ''SQL Injection'', other_type := []\<rparr>)"
  using clean_fields_iff[of issue_example]
    clean_fields_iff[of "issue_example\<lparr>other_type := []\<rparr>"]
    clean_fields_iff[of "issue_example\<lparr>cve_type := ''SQL Injection''\<rparr>"]
    clean_fields_iff[of "issue_example\<lparr>cve_type := ''SQL Injection'', other_type := []\<rparr>"]
  by (simp add: issue_example_def CVE_TYPE_OTHER_def)

subsection \<open>Affected releases\<close>

lemma distinct_map_sorted_desc:
  "distinct (map f (sorted_desc k xs)) = distinct (map f xs)"
  by (simp add: sorted_desc_def distinct_map)

lemma set_add_old:
  "\<exists>e \<in> set s. release_hash H e = release_hash H x \<and> release_eq e x \<Longrightarrow> set_add H s x = s"
  unfolding set_add_def by (rule if_P)

lemma set_add_new:
  "\<not> (\<exists>e \<in> set s. release_hash H e = release_hash H x \<and> release_eq e x) \<Longrightarrow>
   set_add H s x = s @ [x]"
  unfolding set_add_def by (rule if_not_P)

lemma set_add_cases:
  assumes inj: "\<forall>e \<in> set s. version e = version x \<longrightarrow> e = x"
  shows "set (set_add H s x) = insert x (set s)"
    and "distinct (map version s) \<Longrightarrow> distinct (map version (set_add H s x))"
proof -
  show "set (set_add H s x) = insert x (set s)"
  proof (cases "\<exists>e \<in> set s. release_hash H e = release_hash H x \<and> release_eq e x")
    case True
    then obtain e where e: "e \<in> set s" "version e = version x"
      by (auto simp: release_eq_def)
    with inj have "e = x" by blast
    with e(1) have "x \<in> set s" by simp
    then show ?thesis by (simp only: set_add_old[OF True] insert_absorb)
  next
    case False
    show ?thesis by (simp add: set_add_new[OF False])
  qed
  assume d: "distinct (map version s)"
  show "distinct (map version (set_add H s x))"
  proof (cases "\<exists>e \<in> set s. release_hash H e = release_hash H x \<and> release_eq e x")
    case True
    with d show ?thesis by (simp only: set_add_old[OF True])
  next
    case False
    have "version x \<notin> version ` set s"
    proof
      assume "version x \<in> version ` set s"
      then obtain e where e: "e \<in> set s" "version e = version x" by auto
      with inj have "e = x" by blast
      with e(1) have "x \<in> set s" by simp
      moreover have "release_hash H x = release_hash H x \<and> release_eq x x"
        by (simp add: release_eq_def)
      ultimately show False using False by blast
    qed
    with d show ?thesis by (simp add: set_add_new[OF False])
  qed
qed

lemma release_set_foldl:
  assumes "\<forall>a \<in> set s \<union> set xs. \<forall>b \<in> set s \<union> set xs. version a = version b \<longrightarrow> a = b"
  shows "set (foldl (set_add H) s xs) = set s \<union> set xs
       \<and> (distinct (map version s) \<longrightarrow> distinct (map version (foldl (set_add H) s xs)))"
  using assms
proof (induction xs arbitrary: s)
  case Nil
  show ?case by simp
next
  case (Cons x xs)
  have inj: "\<forall>e \<in> set s. version e = version x \<longrightarrow> e = x"
    using Cons.prems by simp
  have s1: "set (set_add H s x) = insert x (set s)"
    by (rule set_add_cases(1)[OF inj])
  have "\<forall>a \<in> set (set_add H s x) \<union> set xs. \<forall>b \<in> set (set_add H s x) \<union> set xs.
          version a = version b \<longrightarrow> a = b"
    using Cons.prems unfolding s1 by simp
  from Cons.IH[OF this]
  have ih: "set (foldl (set_add H) (set_add H s x) xs) = set (set_add H s x) \<union> set xs"
    "distinct (map version (set_add H s x)) \<longrightarrow>
       distinct (map version (foldl (set_add H) (set_add H s x) xs))"
    by simp_all
  show ?case
  proof
    show "set (foldl (set_add H) s (x # xs)) = set s \<union> set (x # xs)"
      using ih(1) s1 by simp
    show "distinct (map version s) \<longrightarrow> distinct (map version (foldl (set_add H) s (x # xs)))"
      using ih(2) set_add_cases(2)[OF inj] by simp
  qed
qed

lemma issue_releases_subset: "set (issue_releases st i) \<subseteq> set (release_table st)"
  by (auto simp: issue_releases_def)

lemma affected_releases_props:
  assumes pk: "distinct (map version (release_table st))"
  shows "set (affected_releases H st self) =
           (\<Union>i \<in> set (securityissue_set st self). set (issue_releases st i))"
    and "distinct (map version (affected_releases H st self))"
proof -
  let ?xs = "concat (map (issue_releases st) (securityissue_set st self))"
  have sub: "set ?xs \<subseteq> set (release_table st)"
    using issue_releases_subset by auto
  from pk have "inj_on version (set (release_table st))"
    by (simp add: distinct_map)
  with sub have "\<forall>a \<in> set [] \<union> set ?xs. \<forall>b \<in> set [] \<union> set ?xs. version a = version b \<longrightarrow> a = b"
    by (auto dest: inj_onD)
  from release_set_foldl[OF this, of H]
  have a: "set (release_set H ?xs) = set ?xs" and b: "distinct (map version (release_set H ?xs))"
    by (simp_all add: release_set_def)
  show "set (affected_releases H st self) =
           (\<Union>i \<in> set (securityissue_set st self). set (issue_releases st i))"
    by (simp add: affected_releases_def set_sorted_desc a)
  show "distinct (map version (affected_releases H st self))"
    by (simp add: affected_releases_def distinct_map_sorted_desc b)
qed

lemma affected_releases_sorted:
  "sorted_wrt (\<lambda>x y. release_key y \<le> release_key x) (affected_releases H st self)"
  unfolding affected_releases_def by (rule sorted_sorted_desc)

lemma affected_example:
  "affected_releases hash_example store_example checklist_example =
     [stored ''5.2rc1'' (5, 2, 0) ''c'' 1 False (Some 739329) None True,
      stored ''5.1.8'' (5, 1, 8) ''f'' 0 False (Some 739343) None False,
      stored ''5.0.14'' (5, 0, 14) ''f'' 0 False (Some 739343) None False]"
  by (simp add: affected_releases_def release_set_def set_add_def securityissue_set_def
      issue_releases_def store_example_def issue_example_def checklist_example_def stored_def
      sorted_desc_def release_key_def release_hash_def release_eq_def hash_example_def)

lemma affected_prerelease_and_final:
  "affected_releases hash_example store_prerelease_and_final checklist_example =
     [stored ''5.2rc1'' (5, 2, 0) ''c'' 1 False (Some 739329) None True,
      stored ''5.2'' (5, 2, 0) ''f'' 0 False (Some 739343) None True]"
  by (simp add: affected_releases_def release_set_def set_add_def securityissue_set_def
      issue_releases_def store_prerelease_and_final_def store_example_def issue_example_def
      checklist_example_def stored_def sorted_desc_def release_key_def release_hash_def
      release_eq_def hash_example_def)

lemma affected_prerelease_only:
  "affected_releases hash_example store_prerelease_only checklist_example =
     [stored ''5.2rc1'' (5, 2, 0) ''c'' 1 False (Some 739329) None True]"
  by (simp add: affected_releases_def release_set_def set_add_def securityissue_set_def
      issue_releases_def store_prerelease_only_def store_example_def issue_example_def
      checklist_example_def stored_def sorted_desc_def release_key_def release_hash_def
      release_eq_def hash_example_def)

text \<open>
  C1, as amended.  Two releases with equal (major, minor, micro) have equal hashes, and
  neither is less than the other, whatever their status and iteration.  Equality of
  releases is equality of their version strings, the primary key.  When no two rows of the
  release table share a version string, \<open>affected_releases\<close> holds exactly the releases
  linked to an issue of the checklist, each version string once, in descending order of
  (major, minor, micro): a release that several issues link appears once, and a
  pre-release and a final build of the same (major, minor, micro) stay two elements.
\<close>

theorem affected_releases_dedup:
  "(release_key a = release_key b \<longrightarrow>
      release_hash H a = release_hash H b \<and> \<not> release_lt a b \<and> \<not> release_lt b a)
   \<and> release_eq a b = (version a = version b)
   \<and> (distinct (map version (release_table st)) \<longrightarrow>
        set (affected_releases H st self) =
          (\<Union>i \<in> set (securityissue_set st self). set (issue_releases st i))
        \<and> distinct (map version (affected_releases H st self))
        \<and> sorted_wrt (\<lambda>x y. release_key y \<le> release_key x) (affected_releases H st self))"
proof (intro conjI impI)
  assume "release_key a = release_key b"
  then show "release_hash H a = release_hash H b" "\<not> release_lt a b" "\<not> release_lt b a"
    by (simp_all add: release_hash_def release_lt_def release_key_def)
next
  show "release_eq a b = (version a = version b)" by (simp add: release_eq_def)
next
  assume pk: "distinct (map version (release_table st))"
  from affected_releases_props[OF pk]
  show "set (affected_releases H st self) =
          (\<Union>i \<in> set (securityissue_set st self). set (issue_releases st i))"
    "distinct (map version (affected_releases H st self))"
    by simp_all
  show "sorted_wrt (\<lambda>x y. release_key y \<le> release_key x) (affected_releases H st self)"
    by (rule affected_releases_sorted)
qed

text \<open>
  The claim as stated fails: with 5.2rc1 and the final 5.2 linked to an issue of the
  checklist, the two have the same (major, minor, micro) and the same hash, they are not
  equal, and both are elements of \<open>affected_releases\<close>.
\<close>

theorem affected_releases_dedup_counterexample:
  "release_key (stored ''5.2rc1'' (5, 2, 0) ''c'' 1 False (Some 739329) None True)
     = release_key (stored ''5.2'' (5, 2, 0) ''f'' 0 False (Some 739343) None True)
   \<and> release_hash hash_example (stored ''5.2rc1'' (5, 2, 0) ''c'' 1 False (Some 739329) None True)
     = release_hash hash_example (stored ''5.2'' (5, 2, 0) ''f'' 0 False (Some 739343) None True)
   \<and> stored ''5.2rc1'' (5, 2, 0) ''c'' 1 False (Some 739329) None True
       \<in> set (affected_releases hash_example store_prerelease_and_final checklist_example)
   \<and> stored ''5.2'' (5, 2, 0) ''f'' 0 False (Some 739343) None True
       \<in> set (affected_releases hash_example store_prerelease_and_final checklist_example)
   \<and> length (affected_releases hash_example store_prerelease_and_final checklist_example) = 2
   \<and> \<not> release_eq (stored ''5.2rc1'' (5, 2, 0) ''c'' 1 False (Some 739329) None True)
                   (stored ''5.2'' (5, 2, 0) ''f'' 0 False (Some 739343) None True)"
  by (simp add: affected_prerelease_and_final)
     (simp add: stored_def release_key_def release_hash_def release_eq_def)

theorem affected_releases_dedup_witness:
  "release_key (stored ''5.2rc1'' (5, 2, 0) ''c'' 1 False (Some 739329) None True)
     = release_key (stored ''5.2'' (5, 2, 0) ''f'' 0 False (Some 739343) None True)
   \<and> distinct (map version (release_table store_prerelease_and_final))
   \<and> release_hash hash_example (stored ''5.2rc1'' (5, 2, 0) ''c'' 1 False (Some 739329) None True)
     = release_hash hash_example (stored ''5.2'' (5, 2, 0) ''f'' 0 False (Some 739343) None True)
   \<and> \<not> release_lt (stored ''5.2rc1'' (5, 2, 0) ''c'' 1 False (Some 739329) None True)
                   (stored ''5.2'' (5, 2, 0) ''f'' 0 False (Some 739343) None True)
   \<and> \<not> release_eq (stored ''5.2rc1'' (5, 2, 0) ''c'' 1 False (Some 739329) None True)
                   (stored ''5.2'' (5, 2, 0) ''f'' 0 False (Some 739343) None True)
   \<and> distinct (map version
         (affected_releases hash_example store_prerelease_and_final checklist_example))
   \<and> sorted_wrt (\<lambda>x y. release_key y \<le> release_key x)
         (affected_releases hash_example store_prerelease_and_final checklist_example)"
proof -
  have k: "release_key (stored ''5.2rc1'' (5, 2, 0) ''c'' 1 False (Some 739329) None True)
     = release_key (stored ''5.2'' (5, 2, 0) ''f'' 0 False (Some 739343) None True)"
    by (simp add: stored_def release_key_def)
  have d: "distinct (map version (release_table store_prerelease_and_final))"
    by (simp add: store_prerelease_and_final_def store_example_def stored_def)
  have v: "version (stored ''5.2rc1'' (5, 2, 0) ''c'' 1 False (Some 739329) None True)
     \<noteq> version (stored ''5.2'' (5, 2, 0) ''f'' 0 False (Some 739343) None True)"
    by (simp add: stored_def)
  from affected_releases_dedup[of
      "stored ''5.2rc1'' (5, 2, 0) ''c'' 1 False (Some 739329) None True"
      "stored ''5.2'' (5, 2, 0) ''f'' 0 False (Some 739343) None True"
      hash_example store_prerelease_and_final checklist_example] k d v
  show ?thesis by blast
qed

text \<open>
  C10.  \<open>latest_release\<close> raises \<open>IndexError\<close> exactly when every affected release is a
  pre-release, which includes the case of no affected release at all, and it raises
  nothing else.  When it returns a release, that release is final, every release before
  it in \<open>affected_releases\<close> is a pre-release, and no final affected release is greater.
\<close>

theorem latest_release_partial:
  "(latest_release H st self = Inl IndexError) =
      (\<forall>r \<in> set (affected_releases H st self). is_pre_release r)
   \<and> (\<forall>e. latest_release H st self = Inl e \<longrightarrow> e = IndexError)
   \<and> (\<forall>r. latest_release H st self = Inr r \<longrightarrow>
         \<not> is_pre_release r
         \<and> (\<exists>pre post. affected_releases H st self = pre @ r # post
                \<and> (\<forall>x \<in> set pre. is_pre_release x))
         \<and> (\<forall>x \<in> set (affected_releases H st self). \<not> is_pre_release x \<longrightarrow> \<not> release_lt r x))"
proof (intro conjI allI impI ballI)
  let ?A = "affected_releases H st self"
  let ?F = "filter (\<lambda>r. \<not> is_pre_release r) ?A"
  show "(latest_release H st self = Inl IndexError) = (\<forall>r \<in> set ?A. is_pre_release r)"
  proof (cases ?F)
    case Nil
    then show ?thesis by (simp add: latest_release_def filter_empty_conv)
  next
    case (Cons r rs)
    then have "r \<in> set ?F" by simp
    then have "r \<in> set ?A \<and> \<not> is_pre_release r" by simp
    with Cons show ?thesis by (auto simp: latest_release_def)
  qed
  fix e assume "latest_release H st self = Inl e"
  then show "e = IndexError"
    by (cases ?F) (simp_all add: latest_release_def)
next
  let ?A = "affected_releases H st self"
  let ?F = "filter (\<lambda>r. \<not> is_pre_release r) ?A"
  fix r assume r: "latest_release H st self = Inr r"
  then obtain rs where F: "?F = r # rs"
    by (cases ?F) (simp_all add: latest_release_def)
  then obtain pre post where A: "?A = pre @ r # post"
    and pre: "\<forall>u \<in> set pre. \<not> \<not> is_pre_release u" and fin: "\<not> is_pre_release r"
    unfolding filter_eq_Cons_iff by blast
  from fin show "\<not> is_pre_release r" .
  from A pre show "\<exists>pre post. ?A = pre @ r # post \<and> (\<forall>x \<in> set pre. is_pre_release x)"
    by auto
  fix x assume x: "x \<in> set ?A" and xf: "\<not> is_pre_release x"
  have srt: "sorted_wrt (\<lambda>x y. release_key y \<le> release_key x) (pre @ r # post)"
    using affected_releases_sorted[of H st self] unfolding A .
  from x xf pre A have "x = r \<or> x \<in> set post" by auto
  then show "\<not> release_lt r x"
  proof
    assume "x = r" then show ?thesis by (simp add: release_lt_def)
  next
    assume "x \<in> set post"
    with srt have "release_key x \<le> release_key r"
      by (simp add: sorted_wrt_append)
    then show ?thesis by (simp add: release_lt_def)
  qed
qed

theorem latest_release_partial_witness:
  "latest_release hash_example store_example checklist_example
     = Inr (stored ''5.1.8'' (5, 1, 8) ''f'' 0 False (Some 739343) None False)
   \<and> \<not> is_pre_release (stored ''5.1.8'' (5, 1, 8) ''f'' 0 False (Some 739343) None False)
   \<and> affected_releases hash_example store_prerelease_only checklist_example =
       [stored ''5.2rc1'' (5, 2, 0) ''c'' 1 False (Some 739329) None True]
   \<and> is_pre_release (stored ''5.2rc1'' (5, 2, 0) ''c'' 1 False (Some 739329) None True)
   \<and> latest_release hash_example store_prerelease_only checklist_example = Inl IndexError"
proof -
  have a: "latest_release hash_example store_example checklist_example
     = Inr (stored ''5.1.8'' (5, 1, 8) ''f'' 0 False (Some 739343) None False)"
    by (simp add: latest_release_def affected_example) (simp add: stored_def is_pre_release_def)
  have b: "is_pre_release (stored ''5.2rc1'' (5, 2, 0) ''c'' 1 False (Some 739329) None True)"
    by (simp add: stored_def is_pre_release_def)
  from latest_release_partial[of hash_example store_example checklist_example] a
  have c: "\<not> is_pre_release (stored ''5.1.8'' (5, 1, 8) ''f'' 0 False (Some 739343) None False)"
    by blast
  from latest_release_partial[of hash_example store_prerelease_only checklist_example] b
  have d: "latest_release hash_example store_prerelease_only checklist_example = Inl IndexError"
    by (simp add: affected_prerelease_only)
  from a b c d affected_prerelease_only show ?thesis by (intro conjI)
qed

subsection \<open>The CVE record\<close>

lemma strftime_mdY_format:
  assumes "month t \<le> 12" and "day t \<le> 31" and "year t \<le> 9999"
  shows "\<exists>mm dd yyyy. strftime_mdY t = mm @ ''/'' @ dd @ ''/'' @ yyyy
           \<and> length mm = 2 \<and> length dd = 2 \<and> length yyyy = 4
           \<and> list_all is_digit mm \<and> list_all is_digit dd \<and> list_all is_digit yyyy
           \<and> int_of_digits mm = month t \<and> int_of_digits dd = day t
           \<and> int_of_digits yyyy = year t"
proof -
  from assms have m: "month t < 100" and d: "day t < 100" and y: "year t < 10000" by simp_all
  show ?thesis
    unfolding strftime_mdY_def
    by (intro exI[of _ "pad2 (month t)"] exI[of _ "pad2 (day t)"]
          exI[of _ "zfill 4 (str_nat (year t))"])
       (simp add: pad2_props[OF m] pad2_props[OF d] year4_props[OF y])
qed

lemma cve_data_Some:
  assumes "issue_release st self = Some release"
  shows "\<exists>d. cve_data st self = Inr d
     \<and> json_keys d = [''title'', ''metrics'', ''descriptions'', ''affected'', ''references'',
                      ''credits'', ''timeline'', ''datePublic'']
     \<and> json_get ''datePublic'' d = Some (JString (strftime_mdY (when_dt release)))
     \<and> json_get ''affected'' d = Some (JArray [JObject
           [(''packageName'', JString ''django''),
            (''collectionURL'', JString ''https://github.com/django/django/''),
            (''defaultStatus'', JString ''affected''),
            (''versions'', JArray (concat (map version_entries (fixed_releases st self))))]])"
  by (simp add: cve_data_def assms Let_def)

text \<open>
  The record of an issue attached to a security release whose \<open>when\<close> is a date with a
  four-digit year.  Its top-level keys are exactly \<open>title\<close>, \<open>metrics\<close>, \<open>descriptions\<close>,
  \<open>affected\<close>, \<open>references\<close>, \<open>credits\<close>, \<open>timeline\<close>, \<open>datePublic\<close>.  Its \<open>datePublic\<close> is
  two digits, a slash, two digits, a slash and four digits, which read as the month, the
  day and the year of \<open>when\<close>.  Its \<open>affected\<close> is a list of one record, whose \<open>versions\<close>
  lists, for the final releases linked to the issue taken in descending order of their
  version strings, an \<open>affected\<close> entry with version major.minor.0 and \<open>lessThan\<close> the
  version of the release, followed by an \<open>unaffected\<close> entry with the version of the
  release and \<open>lessThan\<close> major.minor.*, each with \<open>versionType\<close> \<open>semver\<close>.
\<close>

lemma cve_data_format:
  assumes "issue_release st self = Some release"
    and "1 \<le> month (when_dt release) \<and> month (when_dt release) \<le> 12"
    and "1 \<le> day (when_dt release) \<and> day (when_dt release) \<le> 31"
    and "1000 \<le> year (when_dt release) \<and> year (when_dt release) \<le> 9999"
  shows "\<exists>d pkg rs mm dd yyyy.
       cve_data st self = Inr d
     \<and> json_keys d = [''title'', ''metrics'', ''descriptions'', ''affected'', ''references'',
                      ''credits'', ''timeline'', ''datePublic'']
     \<and> json_get ''datePublic'' d = Some (JString (mm @ ''/'' @ dd @ ''/'' @ yyyy))
     \<and> length mm = 2 \<and> length dd = 2 \<and> length yyyy = 4
     \<and> list_all is_digit mm \<and> list_all is_digit dd \<and> list_all is_digit yyyy
     \<and> int_of_digits mm = month (when_dt release)
     \<and> int_of_digits dd = day (when_dt release)
     \<and> int_of_digits yyyy = year (when_dt release)
     \<and> json_get ''affected'' d = Some (JArray [pkg])
     \<and> mset rs = mset (filter (\<lambda>r. status r = ''f'') (issue_releases st self))
     \<and> sorted_wrt (\<lambda>a b. version b \<le> version a) rs
     \<and> json_get ''versions'' pkg = Some (JArray (concat (map (\<lambda>r.
           [JObject [(''status'', JString ''affected''),
                     (''version'', JString (str_nat (major r) @ ''.'' @ str_nat (minor r) @ ''.0'')),
                     (''lessThan'', JString (version r)),
                     (''versionType'', JString ''semver'')],
            JObject [(''status'', JString ''unaffected''),
                     (''version'', JString (version r)),
                     (''lessThan'', JString (str_nat (major r) @ ''.'' @ str_nat (minor r) @ ''.*'')),
                     (''versionType'', JString ''semver'')]]) rs)))"
proof -
  from cve_data_Some[OF assms(1)] obtain d where
    d: "cve_data st self = Inr d"
    and keys: "json_keys d = [''title'', ''metrics'', ''descriptions'', ''affected'',
                 ''references'', ''credits'', ''timeline'', ''datePublic'']"
    and dp: "json_get ''datePublic'' d = Some (JString (strftime_mdY (when_dt release)))"
    and aff: "json_get ''affected'' d = Some (JArray [JObject
           [(''packageName'', JString ''django''),
            (''collectionURL'', JString ''https://github.com/django/django/''),
            (''defaultStatus'', JString ''affected''),
            (''versions'', JArray (concat (map version_entries (fixed_releases st self))))]])"
    by blast
  from assms(2,3,4) have "month (when_dt release) \<le> 12" "day (when_dt release) \<le> 31"
    "year (when_dt release) \<le> 9999" by simp_all
  from strftime_mdY_format[OF this] obtain mm dd yyyy where
    fmt: "strftime_mdY (when_dt release) = mm @ ''/'' @ dd @ ''/'' @ yyyy"
    and len: "length mm = 2" "length dd = 2" "length yyyy = 4"
    and dig: "list_all is_digit mm" "list_all is_digit dd" "list_all is_digit yyyy"
    and val: "int_of_digits mm = month (when_dt release)"
      "int_of_digits dd = day (when_dt release)" "int_of_digits yyyy = year (when_dt release)"
    by blast
  define pkg where "pkg = JObject
           [(''packageName'', JString ''django''),
            (''collectionURL'', JString ''https://github.com/django/django/''),
            (''defaultStatus'', JString ''affected''),
            (''versions'', JArray (concat (map version_entries (fixed_releases st self))))]"
  have ms: "mset (fixed_releases st self) =
              mset (filter (\<lambda>r. status r = ''f'') (issue_releases st self))"
    by (simp add: fixed_releases_def mset_sorted_desc)
  have srt: "sorted_wrt (\<lambda>a b. version b \<le> version a) (fixed_releases st self)"
    unfolding fixed_releases_def by (rule sorted_sorted_desc)
  have ent: "version_entries = (\<lambda>r.
           [JObject [(''status'', JString ''affected''),
                     (''version'', JString (str_nat (major r) @ ''.'' @ str_nat (minor r) @ ''.0'')),
                     (''lessThan'', JString (version r)),
                     (''versionType'', JString ''semver'')],
            JObject [(''status'', JString ''unaffected''),
                     (''version'', JString (version r)),
                     (''lessThan'', JString (str_nat (major r) @ ''.'' @ str_nat (minor r) @ ''.*'')),
                     (''versionType'', JString ''semver'')]])"
    by (rule ext) (simp add: version_entries_def feature_version_def)
  have vs: "json_get ''versions'' pkg =
              Some (JArray (concat (map version_entries (fixed_releases st self))))"
    by (simp add: pkg_def)
  have dp': "json_get ''datePublic'' d = Some (JString (mm @ ''/'' @ dd @ ''/'' @ yyyy))"
    by (simp only: dp fmt)
  have aff': "json_get ''affected'' d = Some (JArray [pkg])"
    by (simp only: aff pkg_def)
  show ?thesis
    apply (rule exI[of _ d], rule exI[of _ pkg], rule exI[of _ "fixed_releases st self"])
    apply (rule exI[of _ mm], rule exI[of _ dd], rule exI[of _ yyyy])
    apply (intro conjI)
                   apply (rule d, rule keys, rule dp', rule len(1), rule len(2), rule len(3))
             apply (rule dig(1), rule dig(2), rule dig(3), rule val(1), rule val(2), rule val(3))
       apply (rule aff', rule ms, rule srt)
    apply (simp only: vs ent)
    done
qed

lemma cve_data_format_example:
  "issue_release store_example issue_example = Some checklist_example
   \<and> month (when_dt checklist_example) = 12 \<and> day (when_dt checklist_example) = 4
   \<and> year (when_dt checklist_example) = 2024
   \<and> (\<exists>d. cve_data store_example issue_example = Inr d
          \<and> json_keys d = [''title'', ''metrics'', ''descriptions'', ''affected'',
                           ''references'', ''credits'', ''timeline'', ''datePublic'']
          \<and> json_get ''datePublic'' d = Some (JString ''12/04/2024'')
          \<and> json_get ''affected'' d = Some (JArray [JObject
                [(''packageName'', JString ''django''),
                 (''collectionURL'', JString ''https://github.com/django/django/''),
                 (''defaultStatus'', JString ''affected''),
                 (''versions'', JArray
                    [JObject [(''status'', JString ''affected''),
                              (''version'', JString ''5.1.0''),
                              (''lessThan'', JString ''5.1.8''),
                              (''versionType'', JString ''semver'')],
                     JObject [(''status'', JString ''unaffected''),
                              (''version'', JString ''5.1.8''),
                              (''lessThan'', JString ''5.1.*''),
                              (''versionType'', JString ''semver'')],
                     JObject [(''status'', JString ''affected''),
                              (''version'', JString ''5.0.0''),
                              (''lessThan'', JString ''5.0.14''),
                              (''versionType'', JString ''semver'')],
                     JObject [(''status'', JString ''unaffected''),
                              (''version'', JString ''5.0.14''),
                              (''lessThan'', JString ''5.0.*''),
                              (''versionType'', JString ''semver'')]])]]))"
proof -
  have h1: "issue_release store_example issue_example = Some checklist_example"
    by (simp add: issue_release_def store_example_def issue_example_def checklist_example_def)
  have w: "month (when_dt checklist_example) = 12" "day (when_dt checklist_example) = 4"
    "year (when_dt checklist_example) = 2024"
    by (simp_all add: checklist_example_def when_example_def)
  have fixed: "fixed_releases store_example issue_example =
     [stored ''5.1.8'' (5, 1, 8) ''f'' 0 False (Some 739343) None False,
      stored ''5.0.14'' (5, 0, 14) ''f'' 0 False (Some 739343) None False]"
    by (simp add: fixed_releases_def issue_releases_def store_example_def issue_example_def
        stored_def sorted_desc_def)
  from cve_data_format[OF h1] w obtain d where
    d: "cve_data store_example issue_example = Inr d"
    and keys: "json_keys d = [''title'', ''metrics'', ''descriptions'', ''affected'',
                           ''references'', ''credits'', ''timeline'', ''datePublic'']"
    by auto
  from d have dp: "json_get ''datePublic'' d = Some (JString ''12/04/2024'')"
    by (auto simp: cve_data_def h1 Let_def checklist_example_def when_example_def
        strftime_mdY_def pad2_def zfill_def str_nat_unfold digit_char_def)
  from d have aff: "json_get ''affected'' d = Some (JArray [JObject
                [(''packageName'', JString ''django''),
                 (''collectionURL'', JString ''https://github.com/django/django/''),
                 (''defaultStatus'', JString ''affected''),
                 (''versions'', JArray
                    [JObject [(''status'', JString ''affected''),
                              (''version'', JString ''5.1.0''),
                              (''lessThan'', JString ''5.1.8''),
                              (''versionType'', JString ''semver'')],
                     JObject [(''status'', JString ''unaffected''),
                              (''version'', JString ''5.1.8''),
                              (''lessThan'', JString ''5.1.*''),
                              (''versionType'', JString ''semver'')],
                     JObject [(''status'', JString ''affected''),
                              (''version'', JString ''5.0.0''),
                              (''lessThan'', JString ''5.0.14''),
                              (''versionType'', JString ''semver'')],
                     JObject [(''status'', JString ''unaffected''),
                              (''version'', JString ''5.0.14''),
                              (''lessThan'', JString ''5.0.*''),
                              (''versionType'', JString ''semver'')]])]])"
    by (auto simp: cve_data_def h1 Let_def fixed version_entries_def feature_version_def
        stored_def str_nat_unfold digit_char_def)
  from d keys dp aff have "\<exists>d. cve_data store_example issue_example = Inr d
          \<and> json_keys d = [''title'', ''metrics'', ''descriptions'', ''affected'',
                           ''references'', ''credits'', ''timeline'', ''datePublic'']
          \<and> json_get ''datePublic'' d = Some (JString ''12/04/2024'')
          \<and> json_get ''affected'' d = Some (JArray [JObject
                [(''packageName'', JString ''django''),
                 (''collectionURL'', JString ''https://github.com/django/django/''),
                 (''defaultStatus'', JString ''affected''),
                 (''versions'', JArray
                    [JObject [(''status'', JString ''affected''),
                              (''version'', JString ''5.1.0''),
                              (''lessThan'', JString ''5.1.8''),
                              (''versionType'', JString ''semver'')],
                     JObject [(''status'', JString ''unaffected''),
                              (''version'', JString ''5.1.8''),
                              (''lessThan'', JString ''5.1.*''),
                              (''versionType'', JString ''semver'')],
                     JObject [(''status'', JString ''affected''),
                              (''version'', JString ''5.0.0''),
                              (''lessThan'', JString ''5.0.14''),
                              (''versionType'', JString ''semver'')],
                     JObject [(''status'', JString ''unaffected''),
                              (''version'', JString ''5.0.14''),
                              (''lessThan'', JString ''5.0.*''),
                              (''versionType'', JString ''semver'')]])]])"
    by (intro exI[of _ d] conjI)
  with h1 w show ?thesis by (intro conjI)
qed

text \<open>
  C8.  The record has the keys, the \<open>datePublic\<close> and the entries that the claim gives
  (lemma \<open>cve_data_format\<close>), but the releases are taken in descending order of the
  version string, which is not the descending order of the versions once a component has
  two digits.  For the issue linked to the final releases 1.8.18, 1.9.13 and 1.10.7,
  \<open>cve_data\<close> lists the entries of 1.9.13, then those of 1.8.18, then those of 1.10.7,
  while \<open>affected_releases\<close> of the security release gives the same releases as 1.10.7,
  1.9.13, 1.8.18.
\<close>

theorem cve_data_version_order:
  "map version (fixed_releases store_minor_ten issue_example) = [''1.9.13'', ''1.8.18'', ''1.10.7'']
   \<and> map release_key (fixed_releases store_minor_ten issue_example)
       = [(1, 9, 13), (1, 8, 18), (1, 10, 7)]
   \<and> \<not> sorted_wrt (\<lambda>a b. release_key b \<le> release_key a)
          (fixed_releases store_minor_ten issue_example)
   \<and> map version (affected_releases hash_example store_minor_ten checklist_example)
       = [''1.10.7'', ''1.9.13'', ''1.8.18'']
   \<and> (\<exists>d. cve_data store_minor_ten issue_example = Inr d
          \<and> json_get ''affected'' d = Some (JArray [JObject
                [(''packageName'', JString ''django''),
                 (''collectionURL'', JString ''https://github.com/django/django/''),
                 (''defaultStatus'', JString ''affected''),
                 (''versions'', JArray
                    [JObject [(''status'', JString ''affected''),
                              (''version'', JString ''1.9.0''),
                              (''lessThan'', JString ''1.9.13''),
                              (''versionType'', JString ''semver'')],
                     JObject [(''status'', JString ''unaffected''),
                              (''version'', JString ''1.9.13''),
                              (''lessThan'', JString ''1.9.*''),
                              (''versionType'', JString ''semver'')],
                     JObject [(''status'', JString ''affected''),
                              (''version'', JString ''1.8.0''),
                              (''lessThan'', JString ''1.8.18''),
                              (''versionType'', JString ''semver'')],
                     JObject [(''status'', JString ''unaffected''),
                              (''version'', JString ''1.8.18''),
                              (''lessThan'', JString ''1.8.*''),
                              (''versionType'', JString ''semver'')],
                     JObject [(''status'', JString ''affected''),
                              (''version'', JString ''1.10.0''),
                              (''lessThan'', JString ''1.10.7''),
                              (''versionType'', JString ''semver'')],
                     JObject [(''status'', JString ''unaffected''),
                              (''version'', JString ''1.10.7''),
                              (''lessThan'', JString ''1.10.*''),
                              (''versionType'', JString ''semver'')]])]]))"
proof -
  have h1: "issue_release store_minor_ten issue_example = Some checklist_example"
    by (simp add: issue_release_def store_minor_ten_def issue_example_def checklist_example_def)
  have fixed: "fixed_releases store_minor_ten issue_example =
     [stored ''1.9.13'' (1, 9, 13) ''f'' 0 False (Some 736423) None False,
      stored ''1.8.18'' (1, 8, 18) ''f'' 0 False (Some 736423) None True,
      stored ''1.10.7'' (1, 10, 7) ''f'' 0 False (Some 736423) None False]"
    by (simp add: fixed_releases_def issue_releases_def store_minor_ten_def issue_example_def
        stored_def sorted_desc_def)
  have a: "map version (fixed_releases store_minor_ten issue_example)
           = [''1.9.13'', ''1.8.18'', ''1.10.7'']"
    by (simp add: fixed stored_def)
  have b: "map release_key (fixed_releases store_minor_ten issue_example)
           = [(1, 9, 13), (1, 8, 18), (1, 10, 7)]"
    by (simp add: fixed stored_def release_key_def)
  have c: "\<not> sorted_wrt (\<lambda>a b. release_key b \<le> release_key a)
          (fixed_releases store_minor_ten issue_example)"
    by (simp add: fixed stored_def release_key_def)
  have e: "map version (affected_releases hash_example store_minor_ten checklist_example)
           = [''1.10.7'', ''1.9.13'', ''1.8.18'']"
    by (simp add: affected_releases_def release_set_def set_add_def securityissue_set_def
        issue_releases_def store_minor_ten_def issue_example_def checklist_example_def
        stored_def sorted_desc_def release_key_def release_hash_def release_eq_def
        hash_example_def)
  from cve_data_Some[OF h1] obtain d where d: "cve_data store_minor_ten issue_example = Inr d"
    and aff: "json_get ''affected'' d = Some (JArray [JObject
           [(''packageName'', JString ''django''),
            (''collectionURL'', JString ''https://github.com/django/django/''),
            (''defaultStatus'', JString ''affected''),
            (''versions'', JArray (concat (map version_entries
                (fixed_releases store_minor_ten issue_example))))]])"
    by blast
  have v: "concat (map version_entries (fixed_releases store_minor_ten issue_example)) =
                    [JObject [(''status'', JString ''affected''),
                              (''version'', JString ''1.9.0''),
                              (''lessThan'', JString ''1.9.13''),
                              (''versionType'', JString ''semver'')],
                     JObject [(''status'', JString ''unaffected''),
                              (''version'', JString ''1.9.13''),
                              (''lessThan'', JString ''1.9.*''),
                              (''versionType'', JString ''semver'')],
                     JObject [(''status'', JString ''affected''),
                              (''version'', JString ''1.8.0''),
                              (''lessThan'', JString ''1.8.18''),
                              (''versionType'', JString ''semver'')],
                     JObject [(''status'', JString ''unaffected''),
                              (''version'', JString ''1.8.18''),
                              (''lessThan'', JString ''1.8.*''),
                              (''versionType'', JString ''semver'')],
                     JObject [(''status'', JString ''affected''),
                              (''version'', JString ''1.10.0''),
                              (''lessThan'', JString ''1.10.7''),
                              (''versionType'', JString ''semver'')],
                     JObject [(''status'', JString ''unaffected''),
                              (''version'', JString ''1.10.7''),
                              (''lessThan'', JString ''1.10.*''),
                              (''versionType'', JString ''semver'')]]"
    by (simp add: fixed version_entries_def feature_version_def stored_def str_nat_unfold
        digit_char_def)
  from d aff have x: "\<exists>d. cve_data store_minor_ten issue_example = Inr d
          \<and> json_get ''affected'' d = Some (JArray [JObject
           [(''packageName'', JString ''django''),
            (''collectionURL'', JString ''https://github.com/django/django/''),
            (''defaultStatus'', JString ''affected''),
            (''versions'', JArray (concat (map version_entries
                (fixed_releases store_minor_ten issue_example))))]])"
    by (intro exI[of _ d] conjI)
  from a b c e x[unfolded v] show ?thesis by (intro conjI)
qed
end
